theory Spec2Isabelle
  imports Complex_Main
begin

section \<open>JavaScript values used by main.js\<close>

text \<open>
  JavaScript numbers are modelled as HOL reals (exact arithmetic, no rounding, no NaN);
  array indices handed over by the UI are integers. An array read outside the array is
  \<open>undefined\<close> in JavaScript: \<open>js_index\<close> returns \<open>None\<close> there. The operator
  \<open>a ?? b\<close> is \<open>coalesce a b\<close>.
\<close>

definition js_index :: "'a list \<Rightarrow> int \<Rightarrow> 'a option" where
  "js_index xs i = (if 0 \<le> i \<and> i < int (length xs) then Some (xs ! nat i) else None)"

definition coalesce :: "'a option \<Rightarrow> 'a \<Rightarrow> 'a" where
  "coalesce a b = (case a of Some v \<Rightarrow> v | None \<Rightarrow> b)"

section \<open>Palettes: \<open>paletteOptions\<close> and \<open>applyPalette\<close>\<close>

record palette_colors =
  auroraA :: string
  auroraB :: string
  glow :: "real option"
  halo :: string
  haloOpacity :: "real option"
  overlay :: string
  background :: string
  floorEmissive :: string
  floorEmissiveIntensity :: "real option"
  key :: string
  keyIntensity :: "real option"
  rim :: string
  rimIntensity :: "real option"
  hemiSky :: string
  hemiGround :: string
  fog :: string

record palette_option =
  label :: string
  colors :: palette_colors

definition paletteOptions :: "palette_option list" where
  "paletteOptions =
    [ \<lparr> label = ''Aurora Bloom'',
        colors = \<lparr> auroraA = ''#2077ff'', auroraB = ''#ff5bd1'', glow = Some 1.0,
          halo = ''#1e6bff'', haloOpacity = Some 0.12,
          overlay = ''rgba(33, 136, 255, 0.24)'',
          background = ''radial-gradient(circle at center, #0c1024 0%, #040614 42%, #010106 100%)'',
          floorEmissive = ''#0b1835'', floorEmissiveIntensity = Some 0.6,
          key = ''#4aa8ff'', keyIntensity = None, rim = ''#ff4d9d'', rimIntensity = None,
          hemiSky = ''#87b9ff'', hemiGround = ''#050505'', fog = ''#040712'' \<rparr> \<rparr>,
      \<lparr> label = ''Crimson Pulse'',
        colors = \<lparr> auroraA = ''#ff6a88'', auroraB = ''#ffc371'', glow = Some 1.25,
          halo = ''#ff945a'', haloOpacity = Some 0.16,
          overlay = ''rgba(255, 118, 90, 0.24)'',
          background = ''radial-gradient(circle at center, #1f0410 0%, #11000c 45%, #030005 100%)'',
          floorEmissive = ''#270d16'', floorEmissiveIntensity = Some 0.75,
          key = ''#ff9f6b'', keyIntensity = None, rim = ''#ff3d7f'', rimIntensity = None,
          hemiSky = ''#ffe1b5'', hemiGround = ''#22030a'', fog = ''#19050d'' \<rparr> \<rparr>,
      \<lparr> label = ''Deep Tide'',
        colors = \<lparr> auroraA = ''#2bd5c5'', auroraB = ''#3f7bff'', glow = Some 0.92,
          halo = ''#38c7c9'', haloOpacity = Some 0.14,
          overlay = ''rgba(75, 180, 255, 0.2)'',
          background = ''radial-gradient(circle at center, #021620 0%, #00101b 45%, #00050d 100%)'',
          floorEmissive = ''#061c24'', floorEmissiveIntensity = Some 0.68,
          key = ''#3fafff'', keyIntensity = None, rim = ''#2fffd2'', rimIntensity = None,
          hemiSky = ''#4dd0ff'', hemiGround = ''#021318'', fog = ''#021018'' \<rparr> \<rparr> ]"

text \<open>
  The objects \<open>applyPalette\<close> writes to: the aurora shader uniforms, the halo material,
  the floor material, the three lights, the fog, the renderer's clear colour, the two CSS
  backgrounds, and the globals \<open>haloBaseOpacity\<close> and \<open>currentPaletteIndex\<close>.
\<close>

record scene_style =
  uColorA :: string
  uColorB :: string
  uGlow :: real
  haloColor :: string
  haloBaseOpacity :: real
  haloMaterialOpacity :: real
  floorMatEmissive :: string
  floorMatEmissiveIntensity :: real
  keyLightColor :: string
  keyLightIntensity :: real
  rimLightColor :: string
  rimLightIntensity :: real
  hemiLightColor :: string
  hemiLightGroundColor :: string
  fogColor :: string
  clearColor :: string
  bodyBackground :: string
  overlayBackground :: string
  currentPaletteIndex :: int

text \<open>
  \<open>paletteOptions[index]?.colors ?? paletteOptions[0].colors\<close>: the colours of the entry
  at \<open>index\<close>, and those of the first entry when there is no such entry.
\<close>

definition selectPalette :: "int \<Rightarrow> palette_colors" where
  "selectPalette index =
     coalesce (map_option colors (js_index paletteOptions index)) (colors (paletteOptions ! 0))"

definition writePalette :: "palette_colors \<Rightarrow> scene_style \<Rightarrow> scene_style" where
  "writePalette palette s =
     s \<lparr> uColorA := auroraA palette,
         uColorB := auroraB palette,
         uGlow := coalesce (glow palette) 1.0,
         haloColor := halo palette,
         haloBaseOpacity := coalesce (haloOpacity palette) 0.12,
         haloMaterialOpacity := coalesce (haloOpacity palette) 0.12,
         floorMatEmissive := floorEmissive palette,
         floorMatEmissiveIntensity := coalesce (floorEmissiveIntensity palette) 0.6,
         keyLightColor := key palette,
         keyLightIntensity := coalesce (keyIntensity palette) 1.35,
         rimLightColor := rim palette,
         rimLightIntensity := coalesce (rimIntensity palette) 0.8,
         hemiLightColor := hemiSky palette,
         hemiLightGroundColor := hemiGround palette,
         fogColor := fog palette,
         clearColor := fog palette,
         bodyBackground := background palette,
         overlayBackground :=
           ''radial-gradient(circle at var(--cursor-x, 50%) var(--cursor-y, 50%), ''
             @ overlay palette @ '', transparent 45%)'' \<rparr>"

definition applyPalette :: "int \<Rightarrow> scene_style \<Rightarrow> scene_style" where
  "applyPalette index s = (writePalette (selectPalette index) s) \<lparr> currentPaletteIndex := index \<rparr>"

text \<open>
  The style objects as the scene construction leaves them, before the first
  \<open>applyPalette(currentPaletteIndex)\<close> of the module body.
\<close>

definition sceneAtLoad :: scene_style where
  "sceneAtLoad =
     \<lparr> uColorA = ''#2077ff'', uColorB = ''#ff5bd1'', uGlow = 1.0,
       haloColor = ''#1e6bff'', haloBaseOpacity = 0.12, haloMaterialOpacity = 0.12,
       floorMatEmissive = ''#0b1835'', floorMatEmissiveIntensity = 0.6,
       keyLightColor = ''#4aa8ff'', keyLightIntensity = 1.35,
       rimLightColor = ''#ff4d9d'', rimLightIntensity = 0.8,
       hemiLightColor = ''#87b9ff'', hemiLightGroundColor = ''#050505'',
       fogColor = ''#040712'', clearColor = [], bodyBackground = [],
       overlayBackground = [], currentPaletteIndex = 0 \<rparr>"

section \<open>The render loop: pulse and halo opacity\<close>

text \<open>
  \<open>THREE.MathUtils.clamp(value, min, max)\<close> of three.js is
  \<open>Math.max(min, Math.min(max, value))\<close>.
\<close>

definition clamp :: "real \<Rightarrow> real \<Rightarrow> real \<Rightarrow> real" where
  "clamp v lo hi = max lo (min hi v)"

text \<open>
  The amplitude sample of \<open>animate\<close>: with an analyser, its average frequency over 128,
  clamped to \<open>[0.2, 1.8]\<close>; without one, a slow sinusoid of the accumulated time.
\<close>

definition pulse :: "real option \<Rightarrow> real \<Rightarrow> real" where
  "pulse averageFrequency timeAccumulator =
     (case averageFrequency of
        Some f \<Rightarrow> clamp (f / 128) 0.2 1.8
      | None \<Rightarrow> 0.4 + sin (timeAccumulator * 1.2) * 0.2)"

text \<open>\<open>halo.material.opacity\<close> as \<open>animate\<close> assigns it each frame.\<close>

definition haloFrameOpacity :: "real \<Rightarrow> real \<Rightarrow> real" where
  "haloFrameOpacity base p = clamp (base * (0.7 + p * 0.6)) 0.02 0.6"

section \<open>Audio: the buffer cache and \<open>switchAudio\<close>\<close>

type_synonym url = string

datatype audio_buffer = AudioBuffer nat

datatype js_error = Error string | TypeError string

record audio_option =
  audioLabel :: string
  audioFile :: url
  audioVolume :: "real option"

definition audioOptions :: "audio_option list" where
  "audioOptions =
    [ \<lparr> audioLabel = ''Tokyo Driftwave'',
        audioFile = ''./assets/Tokyo%20Urban%20Haka%20No%20Ura.mp3'', audioVolume = Some 0.6 \<rparr>,
      \<lparr> audioLabel = ''KMGY Glitch'',
        audioFile = ''./assets/KMGY%20.mp3'', audioVolume = Some 0.55 \<rparr> ]"

text \<open>
  The playable source of the audio backend (three.js \<open>Audio\<close>): \<open>stop\<close> clears
  \<open>isPlaying\<close>; \<open>play\<close> does nothing when already playing and otherwise starts a source
  node on the bound buffer; \<open>setBuffer\<close>, \<open>setLoop\<close> and \<open>setVolume\<close> assign.
  \<open>playingSource\<close> is the buffer of the source node started last.
\<close>

record three_audio =
  buffer :: "audio_buffer option"
  isPlaying :: bool
  loop :: bool
  volume :: real
  playingSource :: "audio_buffer option"

definition stop :: "three_audio \<Rightarrow> three_audio" where
  "stop a = a \<lparr> isPlaying := False \<rparr>"

definition play :: "three_audio \<Rightarrow> three_audio" where
  "play a = (if isPlaying a then a else a \<lparr> isPlaying := True, playingSource := buffer a \<rparr>)"

definition setBuffer :: "audio_buffer \<Rightarrow> three_audio \<Rightarrow> three_audio" where
  "setBuffer b a = a \<lparr> buffer := Some b \<rparr>"

definition setLoop :: "bool \<Rightarrow> three_audio \<Rightarrow> three_audio" where
  "setLoop v a = a \<lparr> loop := v \<rparr>"

definition setVolume :: "real \<Rightarrow> three_audio \<Rightarrow> three_audio" where
  "setVolume v a = a \<lparr> volume := v \<rparr>"

text \<open>
  A promise held by the cache: the pending decode of a URL (the loader has been asked and
  has not called back), a decoded buffer, or a rejection.
\<close>

datatype promise = Pending url | Fulfilled audio_buffer | Rejected js_error

text \<open>
  A call of \<open>switchAudio\<close> suspended at one of its two \<open>await\<close>s. Its captured
  \<open>requestId\<close> is the key under which the task is stored; \<open>index\<close> and \<open>option\<close> are
  the captured locals.
\<close>

datatype audio_task =
  AwaitBuffer int audio_option nat
| AwaitResume int audio_option

record audio_world =
  audioRequestId :: nat
  currentAudioIndex :: int
  desiredAudioIndex :: int
  audio :: "three_audio option"
  audioAnalyser :: "nat option"
  analysersCreated :: nat
  buffers :: "url \<rightharpoonup> nat"
  promises :: "nat \<rightharpoonup> promise"
  nextPromise :: nat
  loads :: "url list"
  audioTasks :: "nat \<rightharpoonup> audio_task"
  resumeCalls :: nat
  audioWarnings :: "(url \<times> js_error) list"
  audioUncaught :: "js_error list"
  unlockListener :: bool
  unlockWarnings :: "js_error list"

text \<open>
  \<open>loadAudioBuffer\<close>: a hit returns the stored promise; a miss asks the loader (one more
  entry of \<open>loads\<close>), and stores the new pending promise under the URL before returning it.
\<close>

definition loadAudioBuffer :: "url \<Rightarrow> audio_world \<Rightarrow> nat \<times> audio_world" where
  "loadAudioBuffer u w =
     (case buffers w u of
        Some p \<Rightarrow> (p, w)
      | None \<Rightarrow>
          (let p = nextPromise w in
           (p, w \<lparr> promises := (promises w)(p \<mapsto> Pending u),
                   nextPromise := Suc p,
                   loads := loads w @ [u],
                   buffers := (buffers w)(u \<mapsto> p) \<rparr>)))"

text \<open>
  The loader calls \<open>resolve\<close>: the \<open>then\<close> callback stores \<open>Promise.resolve(buffer)\<close>, a
  new fulfilled promise, under the URL and fulfils the promise handed to the callers.
\<close>

definition loaderLoaded :: "nat \<Rightarrow> audio_buffer \<Rightarrow> audio_world \<Rightarrow> audio_world" where
  "loaderLoaded p b w =
     (case promises w p of
        Some (Pending u) \<Rightarrow>
          (let q = nextPromise w in
           w \<lparr> promises := (promises w)(p \<mapsto> Fulfilled b, q \<mapsto> Fulfilled b),
               nextPromise := Suc q,
               buffers := (buffers w)(u \<mapsto> q) \<rparr>)
      | _ \<Rightarrow> w)"

text \<open>
  The loader calls \<open>reject\<close>: the \<open>then\<close> callback does not run, the promise handed out
  is rejected, and the cache map is not touched.
\<close>

definition loaderFailed :: "nat \<Rightarrow> js_error \<Rightarrow> audio_world \<Rightarrow> audio_world" where
  "loaderFailed p e w =
     (case promises w p of
        Some (Pending u) \<Rightarrow> w \<lparr> promises := (promises w)(p \<mapsto> Rejected e) \<rparr>
      | _ \<Rightarrow> w)"

text \<open>
  \<open>switchAudio\<close> up to its first \<open>await\<close>. With no option at \<open>index\<close> the read of
  \<open>option.file\<close> throws inside \<open>try\<close>, and again inside \<open>catch\<close>, so the call rejects
  with a TypeError after the token was incremented.
\<close>

definition switchAudio :: "int \<Rightarrow> audio_world \<Rightarrow> audio_world" where
  "switchAudio index w =
     (let requestId = Suc (audioRequestId w);
          w1 = w \<lparr> desiredAudioIndex := index, audioRequestId := requestId \<rparr>
      in case js_index audioOptions index of
           None \<Rightarrow> w1 \<lparr> audioUncaught := audioUncaught w1 @ [TypeError ''option is undefined''] \<rparr>
         | Some option \<Rightarrow>
             (case loadAudioBuffer (audioFile option) w1 of
                (p, w2) \<Rightarrow> w2 \<lparr> audioTasks := (audioTasks w2)(requestId \<mapsto> AwaitBuffer index option p) \<rparr>))"

text \<open>
  The continuation after \<open>await loadAudioBuffer(option.file)\<close>, up to
  \<open>await audioState.listener.context.resume()\<close>; a rejected promise goes to \<open>catch\<close>.
  While the promise is pending the task cannot continue.
\<close>

definition finishTask :: "nat \<Rightarrow> audio_world \<Rightarrow> audio_world" where
  "finishTask requestId w = w \<lparr> audioTasks := (audioTasks w)(requestId := None) \<rparr>"

definition warnAudio :: "audio_option \<Rightarrow> js_error \<Rightarrow> audio_world \<Rightarrow> audio_world" where
  "warnAudio option e w = w \<lparr> audioWarnings := audioWarnings w @ [(audioFile option, e)] \<rparr>"

definition afterBuffer :: "nat \<Rightarrow> audio_world \<Rightarrow> audio_world" where
  "afterBuffer requestId w =
     (case audioTasks w requestId of
        Some (AwaitBuffer index option p) \<Rightarrow>
          (case promises w p of
             Some (Fulfilled b) \<Rightarrow>
               if requestId \<noteq> audioRequestId w then finishTask requestId w
               else (case audio w of
                       None \<Rightarrow> finishTask requestId w
                     | Some a \<Rightarrow>
                         (let a1 = (if isPlaying a then stop a else a);
                              a2 = setBuffer b a1;
                              a3 = setLoop True a2;
                              a4 = setVolume (coalesce (audioVolume option) 0.6) a3
                          in w \<lparr> audio := Some a4,
                                 resumeCalls := Suc (resumeCalls w),
                                 audioTasks := (audioTasks w)(requestId \<mapsto> AwaitResume index option) \<rparr>))
           | Some (Rejected e) \<Rightarrow> finishTask requestId (warnAudio option e w)
           | _ \<Rightarrow> w)
      | _ \<Rightarrow> w)"

text \<open>
  The continuation after \<open>await ... resume()\<close>: \<open>play\<close>, a new analyser, and the commit of
  \<open>currentAudioIndex\<close>. There is no second comparison of \<open>requestId\<close> with
  \<open>audioRequestId\<close> here.
\<close>

definition afterResume :: "nat \<Rightarrow> audio_world \<Rightarrow> audio_world" where
  "afterResume requestId w =
     (case audioTasks w requestId of
        Some (AwaitResume index option) \<Rightarrow>
          (case audio w of
             None \<Rightarrow>
               finishTask requestId (warnAudio option (TypeError ''audio is null'') w)
           | Some a \<Rightarrow>
               finishTask requestId
                 (w \<lparr> audio := Some (play a),
                      audioAnalyser := Some (analysersCreated w),
                      analysersCreated := Suc (analysersCreated w),
                      currentAudioIndex := index \<rparr>))
      | _ \<Rightarrow> w)"

definition resumeRejected :: "nat \<Rightarrow> js_error \<Rightarrow> audio_world \<Rightarrow> audio_world" where
  "resumeRejected requestId e w =
     (case audioTasks w requestId of
        Some (AwaitResume index option) \<Rightarrow> finishTask requestId (warnAudio option e w)
      | _ \<Rightarrow> w)"

text \<open>
  The \<open>pointerdown\<close> listener, registered once: when its own \<open>resume()\<close> resolves it
  starts playback if a buffer is bound and nothing is playing; when it rejects, it warns.
\<close>

definition unlockResolved :: "audio_world \<Rightarrow> audio_world" where
  "unlockResolved w =
     (if unlockListener w
      then w \<lparr> unlockListener := False,
               audio := map_option (\<lambda>a. if \<not> isPlaying a \<and> buffer a \<noteq> None then play a else a)
                          (audio w) \<rparr>
      else w)"

definition unlockRejected :: "js_error \<Rightarrow> audio_world \<Rightarrow> audio_world" where
  "unlockRejected e w =
     (if unlockListener w
      then w \<lparr> unlockListener := False, unlockWarnings := unlockWarnings w @ [e] \<rparr>
      else w)"

text \<open>
  What can happen to the audio part of the session, one event at a time: a call of
  \<open>switchAudio\<close> (from a button, or the one of \<open>setupAudio\<close>), a callback of the
  loader for a pending decode, a task resuming after its buffer promise settled, the
  \<open>resume()\<close> promise of a task resolving or rejecting, and the \<open>pointerdown\<close>
  listener finishing. Each event runs to its next \<open>await\<close> without interleaving; the
  order of events is arbitrary. No other code of main.js touches the cache, the token, the
  committed index, the analyser or the audio object.
\<close>

datatype audio_event =
  SwitchAudio int
| LoaderLoaded nat audio_buffer
| LoaderFailed nat js_error
| BufferSettled nat
| ResumeResolved nat
| ResumeRejected nat js_error
| UnlockResolved
| UnlockRejected js_error

fun audioStep :: "audio_event \<Rightarrow> audio_world \<Rightarrow> audio_world" where
  "audioStep (SwitchAudio index) w = switchAudio index w"
| "audioStep (LoaderLoaded p b) w = loaderLoaded p b w"
| "audioStep (LoaderFailed p e) w = loaderFailed p e w"
| "audioStep (BufferSettled requestId) w = afterBuffer requestId w"
| "audioStep (ResumeResolved requestId) w = afterResume requestId w"
| "audioStep (ResumeRejected requestId e) w = resumeRejected requestId e w"
| "audioStep UnlockResolved w = unlockResolved w"
| "audioStep (UnlockRejected e) w = unlockRejected e w"

fun audioRun :: "audio_event list \<Rightarrow> audio_world \<Rightarrow> audio_world" where
  "audioRun [] w = w"
| "audioRun (e # es) w = audioRun es (audioStep e w)"

text \<open>
  The audio state when the module body reaches its last statement, the call of \<open>init\<close>:
  \<open>audioState.audio\<close> is a fresh \<open>THREE.Audio\<close>, the cache is empty and both indices
  and the token are 0. The \<open>switchAudio(desiredAudioIndex)\<close> of \<open>setupAudio\<close> is the
  first \<open>SwitchAudio\<close> event of a session, not part of this state.
\<close>

definition audioAtLoad :: audio_world where
  "audioAtLoad =
     \<lparr> audioRequestId = 0, currentAudioIndex = 0, desiredAudioIndex = 0,
       audio = Some \<lparr> buffer = None, isPlaying = False, loop = False, volume = 1,
                      playingSource = None \<rparr>,
       audioAnalyser = None, analysersCreated = 0,
       buffers = Map.empty, promises = Map.empty, nextPromise = 0, loads = [],
       audioTasks = Map.empty, resumeCalls = 0, audioWarnings = [], audioUncaught = [],
       unlockListener = True, unlockWarnings = [] \<rparr>"

section \<open>Avatar acquisition and \<open>switchAnimation\<close>\<close>

record animation_option =
  animationLabel :: string
  animationFile :: url

definition animationOptions :: "animation_option list" where
  "animationOptions =
    [ \<lparr> animationLabel = ''Swing Bloom'', animationFile = ''./assets/Swing%20Dancing-1.fbx'' \<rparr>,
      \<lparr> animationLabel = ''Soul Spin'',
        animationFile = ''./assets/Northern%20Soul%20Spin%20Combo.fbx'' \<rparr>,
      \<lparr> animationLabel = ''Calm Idle'', animationFile = ''./assets/Standing%20Idle.fbx'' \<rparr>,
      \<lparr> animationLabel = ''Future Talk'', animationFile = ''./assets/Talking.fbx'' \<rparr> ]"

text \<open>
  The values of \<open>avatarCapabilities.mode\<close>: the strings \<open>loading\<close>, \<open>gvrm\<close>,
  \<open>simple-vrm\<close> and \<open>error\<close> (the spec's loading, primary, fallback and error).
\<close>

datatype avatar_mode = ModeLoading | ModeGvrm | ModeSimpleVrm | ModeError

record avatar_capabilities =
  supportsFBX :: bool
  mode :: avatar_mode

text \<open>
  The avatar handle: an object of the extended backend (\<open>GVRMClass.load\<close>) or a
  \<open>SimpleVRMWrapper\<close>. \<open>isReady\<close> of an extended handle is the backend's; the wrapper's
  constructor sets it to true.
\<close>

datatype avatar_kind = GvrmAvatar | SimpleVrmAvatar

record avatar_handle =
  kind :: avatar_kind
  loadedFrom :: url
  isReady :: bool
  handleSupportsFBX :: bool
  handleMode :: avatar_mode
  position :: "real \<times> real \<times> real"
  scale :: real

datatype meta_message = MetaLoading | MetaGaussian | MetaStandard | MetaUnavailable

datatype log_entry =
  Warn string "js_error option"
| Info string
| LogError js_error

record avatar_world =
  avatarCapabilities :: avatar_capabilities
  capabilityWrites :: "avatar_capabilities list"
  animationButtonsEnabled :: bool
  metaTag :: meta_message
  gvrmModulePromise :: "bool option"
  gvrmModuleLoadError :: "js_error option"
  importCalls :: nat
  gvrmInstance :: "avatar_handle option"
  animationRequestId :: nat
  currentAnimationIndex :: int
  desiredAnimationIndex :: int
  animationTasks :: "nat \<rightharpoonup> int \<times> animation_option"
  nextObjectUrl :: nat
  liveObjectUrls :: "nat list"
  sceneAvatars :: "avatar_handle list"
  avatarLog :: "log_entry list"
  avatarUncaught :: "js_error list"

text \<open>
  What the collaborators answer during one acquisition: the dynamic import of the
  extended backend (rejected, or a module with or without the \<open>GVRM\<close> export), the
  extended backend's \<open>load\<close> per candidate (an error, or a handle with its \<open>isReady\<close>),
  \<open>fetch\<close>, the archive reader, and the mesh loader on the bytes of the inner payload
  (an error, or a result with or without \<open>userData.vrm\<close>).
\<close>

type_synonym bytes = "nat list"

record http_response =
  ok :: bool
  status :: string
  statusText :: string
  arrayBuffer :: "js_error + bytes"

record avatar_env =
  importGvrm :: "js_error + bool"
  gvrmLoad :: "url \<Rightarrow> js_error + bool"
  fetch :: "url \<Rightarrow> js_error + http_response"
  zipLoadAsync :: "bytes \<Rightarrow> js_error + (string \<times> (js_error + bytes)) list"
  gltfLoadAsync :: "bytes \<Rightarrow> js_error + nat option"

definition logAvatar :: "log_entry \<Rightarrow> avatar_world \<Rightarrow> avatar_world" where
  "logAvatar entry w = w \<lparr> avatarLog := avatarLog w @ [entry] \<rparr>"

text \<open>
  An assignment to \<open>avatarCapabilities\<close> with the \<open>updateAnimationButtonState\<close> and
  \<open>updateMetaTag\<close> calls that follow each one in the source. \<open>capabilityWrites\<close> lists
  the assignments in order.
\<close>

definition setCapabilities :: "avatar_capabilities \<Rightarrow> meta_message \<Rightarrow> avatar_world \<Rightarrow> avatar_world" where
  "setCapabilities c m w =
     w \<lparr> avatarCapabilities := c,
         capabilityWrites := capabilityWrites w @ [c],
         animationButtonsEnabled := supportsFBX c,
         metaTag := m \<rparr>"

text \<open>
  \<open>ensureGvrmModule\<close>: the import is started once; its outcome (the class, or null
  after a failure or a missing export) is kept in \<open>gvrmModulePromise\<close>.
\<close>

definition ensureGvrmModule :: "avatar_env \<Rightarrow> avatar_world \<Rightarrow> bool \<times> avatar_world" where
  "ensureGvrmModule env w =
     (case gvrmModulePromise w of
        Some c \<Rightarrow> (c, w)
      | None \<Rightarrow>
          (case importGvrm env of
             Inr c \<Rightarrow> (c, w \<lparr> gvrmModulePromise := Some c, importCalls := Suc (importCalls w) \<rparr>)
           | Inl e \<Rightarrow>
               (False,
                logAvatar (Warn ''GVRM runtime failed to load. Falling back to standard VRM experience.'' (Some e))
                  (w \<lparr> gvrmModulePromise := Some False,
                       gvrmModuleLoadError := Some e,
                       importCalls := Suc (importCalls w) \<rparr>))))"

definition SimpleVRMWrapper :: "url \<Rightarrow> avatar_handle" where
  "SimpleVRMWrapper u =
     \<lparr> kind = SimpleVrmAvatar, loadedFrom = u, isReady = True, handleSupportsFBX = False,
       handleMode = ModeSimpleVrm, position = (0, 0, 0), scale = 1 \<rparr>"

text \<open>
  The part of \<open>loadSimpleVRMFromGvrm\<close> inside \<open>try\<close>: the mesh loader on the object
  URL, the check for \<open>userData.vrm\<close>, the wrapper added to the scene.
\<close>

definition loadWrapper :: "avatar_env \<Rightarrow> url \<Rightarrow> bytes \<Rightarrow> avatar_world \<Rightarrow> (js_error + avatar_handle) \<times> avatar_world" where
  "loadWrapper env u vrmBuffer w =
     (case gltfLoadAsync env vrmBuffer of
        Inl e \<Rightarrow> (Inl e, w)
      | Inr None \<Rightarrow> (Inl (Error ''VRM payload missing from fallback data.''), w)
      | Inr (Some vrm) \<Rightarrow>
          (Inr (SimpleVRMWrapper u), w \<lparr> sceneAvatars := sceneAvatars w @ [SimpleVRMWrapper u] \<rparr>))"

definition loadSimpleVRMFromGvrm :: "avatar_env \<Rightarrow> url \<Rightarrow> avatar_world \<Rightarrow> (js_error + avatar_handle) \<times> avatar_world" where
  "loadSimpleVRMFromGvrm env u w =
     (case fetch env u of
        Inl e \<Rightarrow> (Inl e, w)
      | Inr response \<Rightarrow>
          if \<not> ok response then
            (Inl (Error (''Failed to retrieve fallback VRM from '' @ u @ '': '' @ status response
                          @ '' '' @ statusText response)), w)
          else
            (case arrayBuffer response of
               Inl e \<Rightarrow> (Inl e, w)
             | Inr body \<Rightarrow>
                 (case zipLoadAsync env body of
                    Inl e \<Rightarrow> (Inl e, w)
                  | Inr archive \<Rightarrow>
                      (case map_of archive ''model.vrm'' of
                         None \<Rightarrow> (Inl (Error ''model.vrm was not found inside the GVRM archive.''), w)
                       | Some (Inl e) \<Rightarrow> (Inl e, w)
                       | Some (Inr vrmBuffer) \<Rightarrow>
                           (let vrmUrl = nextObjectUrl w;
                                w1 = w \<lparr> nextObjectUrl := Suc vrmUrl,
                                         liveObjectUrls := vrmUrl # liveObjectUrls w \<rparr>
                            in case loadWrapper env u vrmBuffer w1 of
                                 (r, w2) \<Rightarrow>
                                   (r, w2 \<lparr> liveObjectUrls := removeAll vrmUrl (liveObjectUrls w2) \<rparr>))))))"

definition gvrmHandle :: "url \<Rightarrow> bool \<Rightarrow> avatar_handle" where
  "gvrmHandle u ready =
     \<lparr> kind = GvrmAvatar, loadedFrom = u, isReady = ready, handleSupportsFBX = True,
       handleMode = ModeGvrm, position = (0, 0, 0), scale = 1 \<rparr>"

text \<open>
  The \<open>for\<close> loop of \<open>loadGvrmAvatar\<close> over the remaining candidates, with the current
  \<open>lastError\<close>. It returns the handle of the first success, or the final \<open>lastError\<close>.
\<close>

fun tryCandidates ::
  "avatar_env \<Rightarrow> bool \<Rightarrow> url list \<Rightarrow> js_error option \<Rightarrow> avatar_world
     \<Rightarrow> (js_error option + avatar_handle) \<times> avatar_world" where
  "tryCandidates env GVRMClass [] lastError w = (Inl lastError, w)"
| "tryCandidates env GVRMClass (candidate # rest) lastError w =
     (case (if GVRMClass then Some (gvrmLoad env candidate) else None) of
        Some (Inr ready) \<Rightarrow>
          (Inr (gvrmHandle candidate ready),
           setCapabilities \<lparr> supportsFBX = True, mode = ModeGvrm \<rparr> MetaGaussian w)
      | attempt \<Rightarrow>
          (let lastError1 = (case attempt of Some (Inl e) \<Rightarrow> Some e | _ \<Rightarrow> lastError);
               w1 = (case attempt of
                       Some (Inl e) \<Rightarrow> logAvatar (Warn (''Failed to load GVRM candidate '' @ candidate) (Some e)) w
                     | _ \<Rightarrow> w)
           in case loadSimpleVRMFromGvrm env candidate w1 of
                (Inr fallback, w2) \<Rightarrow>
                  (Inr fallback,
                   logAvatar (Info (''Loaded fallback VRM avatar without Gaussian splatting: '' @ candidate))
                     (setCapabilities \<lparr> supportsFBX = False, mode = ModeSimpleVrm \<rparr> MetaStandard w2))
              | (Inl fallbackError, w2) \<Rightarrow>
                  tryCandidates env GVRMClass rest (Some fallbackError)
                    (logAvatar (Warn (''Fallback VRM load failed for candidate '' @ candidate)
                                  (Some fallbackError)) w2)))"

definition loadGvrmAvatarFrom ::
  "avatar_env \<Rightarrow> url list \<Rightarrow> avatar_world \<Rightarrow> (js_error + avatar_handle) \<times> avatar_world" where
  "loadGvrmAvatarFrom env cs w =
     (case ensureGvrmModule env w of
        (GVRMClass, w1) \<Rightarrow>
          (case tryCandidates env GVRMClass cs None w1 of
             (Inr h, w2) \<Rightarrow> (Inr h, w2)
           | (Inl lastError, w2) \<Rightarrow>
               (let lastError1 =
                      (if \<not> GVRMClass \<and> gvrmModuleLoadError w2 \<noteq> None \<and> lastError = None
                       then gvrmModuleLoadError w2 else lastError)
                in (Inl (coalesce lastError1 (Error ''Unable to load any avatar assets.'')), w2))))"

definition candidates :: "url list" where
  "candidates = [''./assets/20251101-Masa.gvrm'']"

definition loadGvrmAvatar :: "avatar_env \<Rightarrow> avatar_world \<Rightarrow> (js_error + avatar_handle) \<times> avatar_world" where
  "loadGvrmAvatar env w = loadGvrmAvatarFrom env candidates w"

text \<open>
  \<open>switchAnimation\<close> up to its \<open>await\<close>. The result is the error the call rejects with,
  if any: with no option at \<open>index\<close>, \<open>option.file\<close> throws inside \<open>try\<close> and again
  inside \<open>catch\<close>. The wrapper's \<open>changeFBX\<close> only warns.
\<close>

definition switchAnimation :: "int \<Rightarrow> avatar_world \<Rightarrow> js_error option \<times> avatar_world" where
  "switchAnimation index w =
     (let w1 = w \<lparr> desiredAnimationIndex := index \<rparr> in
      if \<not> supportsFBX (avatarCapabilities w1) then (None, w1)
      else (case gvrmInstance w1 of
              None \<Rightarrow> (None, w1)
            | Some h \<Rightarrow>
                if \<not> isReady h then (None, w1)
                else
                  (let requestId = Suc (animationRequestId w1);
                       w2 = w1 \<lparr> animationRequestId := requestId \<rparr>
                   in case js_index animationOptions index of
                        None \<Rightarrow> (Some (TypeError ''option is undefined''), w2)
                      | Some option \<Rightarrow>
                          (None,
                           (if kind h = SimpleVrmAvatar
                            then logAvatar (Warn ''FBX animation playback is not available in fallback VRM mode.'' None) w2
                            else w2)
                             \<lparr> animationTasks := (animationTasks w2)(requestId \<mapsto> (index, option)) \<rparr>))))"

text \<open>The continuation after \<open>await gvrmInstance.changeFBX(option.file)\<close>.\<close>

definition changeResolved :: "nat \<Rightarrow> avatar_world \<Rightarrow> avatar_world" where
  "changeResolved requestId w =
     (case animationTasks w requestId of
        Some (index, option) \<Rightarrow>
          (if requestId = animationRequestId w
           then w \<lparr> currentAnimationIndex := index \<rparr>
           else w) \<lparr> animationTasks := (animationTasks w)(requestId := None) \<rparr>
      | None \<Rightarrow> w)"

definition changeRejected :: "nat \<Rightarrow> js_error \<Rightarrow> avatar_world \<Rightarrow> avatar_world" where
  "changeRejected requestId e w =
     (case animationTasks w requestId of
        Some (index, option) \<Rightarrow>
          (logAvatar (Warn (''Animation load failed: '' @ animationFile option) (Some e)) w)
            \<lparr> animationTasks := (animationTasks w)(requestId := None) \<rparr>
      | None \<Rightarrow> w)"

datatype animation_event =
  SwitchAnimation int
| ChangeResolved nat
| ChangeRejected nat js_error

fun animationStep :: "animation_event \<Rightarrow> avatar_world \<Rightarrow> avatar_world" where
  "animationStep (SwitchAnimation index) w =
     (case switchAnimation index w of
        (None, w1) \<Rightarrow> w1
      | (Some e, w1) \<Rightarrow> w1 \<lparr> avatarUncaught := avatarUncaught w1 @ [e] \<rparr>)"
| "animationStep (ChangeResolved requestId) w = changeResolved requestId w"
| "animationStep (ChangeRejected requestId e) w = changeRejected requestId e w"

fun animationRun :: "animation_event list \<Rightarrow> avatar_world \<Rightarrow> avatar_world" where
  "animationRun [] w = w"
| "animationRun (e # es) w = animationRun es (animationStep e w)"

text \<open>
  The avatar half of \<open>init\<close>: \<open>loadGvrmAvatar\<close> and the first \<open>switchAnimation\<close> inside
  one \<open>try\<close>; the \<open>catch\<close> logs the error and sets the capabilities to the error mode.
\<close>

definition initFailed :: "js_error \<Rightarrow> avatar_world \<Rightarrow> avatar_world" where
  "initFailed e w =
     setCapabilities \<lparr> supportsFBX = False, mode = ModeError \<rparr> MetaUnavailable
       (logAvatar (LogError e) w)"

definition initFrom :: "avatar_env \<Rightarrow> url list \<Rightarrow> avatar_world \<Rightarrow> avatar_world" where
  "initFrom env cs w =
     (case loadGvrmAvatarFrom env cs w of
        (Inl e, w1) \<Rightarrow> initFailed e w1
      | (Inr h, w1) \<Rightarrow>
          (case switchAnimation (desiredAnimationIndex w1) (w1 \<lparr> gvrmInstance := Some h \<rparr>) of
             (None, w2) \<Rightarrow> w2
           | (Some e, w2) \<Rightarrow> initFailed e w2))"

definition init :: "avatar_env \<Rightarrow> avatar_world \<Rightarrow> avatar_world" where
  "init env w = initFrom env candidates w"

text \<open>The avatar state when the module body reaches its last statement, the call of \<open>init\<close>.\<close>

definition avatarAtLoad :: avatar_world where
  "avatarAtLoad =
     \<lparr> avatarCapabilities = \<lparr> supportsFBX = False, mode = ModeLoading \<rparr>,
       capabilityWrites = [], animationButtonsEnabled = False, metaTag = MetaLoading,
       gvrmModulePromise = None, gvrmModuleLoadError = None, importCalls = 0,
       gvrmInstance = None, animationRequestId = 0, currentAnimationIndex = 0,
       desiredAnimationIndex = 0, animationTasks = Map.empty,
       nextObjectUrl = 0, liveObjectUrls = [], sceneAvatars = [],
       avatarLog = [], avatarUncaught = [] \<rparr>"

section \<open>Predicates on the avatar session\<close>

text \<open>
  \<open>armed\<close>: the two guards of \<open>switchAnimation\<close> pass. \<open>validAnimation\<close>: the index
  names an animation option (the indices the buttons send). A completion is the resolution
  or rejection of a \<open>changeFBX\<close> call.
\<close>

definition armed :: "avatar_world \<Rightarrow> bool" where
  "armed w \<longleftrightarrow> supportsFBX (avatarCapabilities w)
      \<and> (case gvrmInstance w of Some h \<Rightarrow> isReady h | None \<Rightarrow> False)"

fun isCompletion :: "animation_event \<Rightarrow> bool" where
  "isCompletion (SwitchAnimation index) = False"
| "isCompletion _ = True"

definition validAnimation :: "int \<Rightarrow> bool" where
  "validAnimation index \<longleftrightarrow> 0 \<le> index \<and> index < int (length animationOptions)"

text \<open>
  While only completions arrive: the committed index is the one from before the requests
  or \<open>i\<close>, and the task holding the current token, if it is still waiting, is for \<open>i\<close>.
\<close>

definition latestOnly :: "int \<Rightarrow> int \<Rightarrow> avatar_world \<Rightarrow> bool" where
  "latestOnly c0 i w \<longleftrightarrow>
     (currentAnimationIndex w = c0 \<or> currentAnimationIndex w = i)
   \<and> (case animationTasks w (animationRequestId w) of
         None \<Rightarrow> True
       | Some (index, option) \<Rightarrow> index = i)"

text \<open>
  The outcome of the fallback path for a candidate (it does not depend on the session
  state), a candidate failing on the fallback backend, and a candidate failing on the
  extended backend (the class is not available, or its \<open>load\<close> fails).
\<close>

definition fallbackResult :: "avatar_env \<Rightarrow> url \<Rightarrow> js_error + avatar_handle" where
  "fallbackResult env u = fst (loadSimpleVRMFromGvrm env u avatarAtLoad)"

definition fallbackFails :: "avatar_env \<Rightarrow> url \<Rightarrow> bool" where
  "fallbackFails env u = isl (fallbackResult env u)"

definition extendedFails :: "avatar_env \<Rightarrow> avatar_world \<Rightarrow> url \<Rightarrow> bool" where
  "extendedFails env w u = (\<not> fst (ensureGvrmModule env w) \<or> isl (gvrmLoad env u))"

text \<open>The fields a failed attempt leaves alone.\<close>

definition sameCapabilities :: "avatar_world \<Rightarrow> avatar_world \<Rightarrow> bool" where
  "sameCapabilities w' w \<longleftrightarrow>
     avatarCapabilities w' = avatarCapabilities w
   \<and> capabilityWrites w' = capabilityWrites w
   \<and> gvrmModuleLoadError w' = gvrmModuleLoadError w
   \<and> gvrmInstance w' = gvrmInstance w
   \<and> desiredAnimationIndex w' = desiredAnimationIndex w"

section \<open>Concrete collaborators and sessions\<close>

text \<open>
  Four answers of the collaborators: nothing loads (the extended backend rejects every
  file and every fetch is a 404); the same with the import of the extended backend
  failing; the extended backend rejects every file and the archive at
  \<open>./assets/second.gvrm\<close> holds a loadable \<open>model.vrm\<close>; the extended backend loads
  every file.
\<close>

definition envNothingLoads :: avatar_env where
  "envNothingLoads =
     \<lparr> importGvrm = Inr True,
       gvrmLoad = (\<lambda>u. Inl (Error ''not a GVRM file'')),
       fetch = (\<lambda>u. Inr \<lparr> ok = False, status = ''404'', statusText = ''Not Found'',
                           arrayBuffer = Inr [] \<rparr>),
       zipLoadAsync = (\<lambda>b. Inl (Error ''not a zip file'')),
       gltfLoadAsync = (\<lambda>b. Inl (Error ''not a glTF file'')) \<rparr>"

definition envImportFails :: avatar_env where
  "envImportFails = envNothingLoads \<lparr> importGvrm := Inl (Error ''Failed to fetch dynamically imported module'') \<rparr>"

definition envSecondArchive :: avatar_env where
  "envSecondArchive =
     envNothingLoads
       \<lparr> fetch := (\<lambda>u. if u = ''./assets/second.gvrm''
                        then Inr \<lparr> ok = True, status = ''200'', statusText = ''OK'',
                                   arrayBuffer = Inr [80, 75, 3, 4] \<rparr>
                        else Inr \<lparr> ok = False, status = ''404'', statusText = ''Not Found'',
                                   arrayBuffer = Inr [] \<rparr>),
         zipLoadAsync := (\<lambda>b. Inr [(''model.vrm'', Inr [103, 108, 84, 70])]),
         gltfLoadAsync := (\<lambda>b. Inr (Some 1)) \<rparr>"

definition envGvrmReady :: avatar_env where
  "envGvrmReady = envNothingLoads \<lparr> gvrmLoad := (\<lambda>u. Inr True) \<rparr>"

text \<open>The session after \<open>init\<close> with a working extended backend.\<close>

definition gvrmSession :: avatar_world where
  "gvrmSession = init envGvrmReady avatarAtLoad"

section \<open>A concrete audio session\<close>

text \<open>
  A concrete session: the first track was requested, decoded, resumed and is playing;
  the second track was requested and its decode has just been delivered.
\<close>

definition secondTrackDecoded :: audio_world where
  "secondTrackDecoded =
     audioRun [SwitchAudio 0, LoaderLoaded 0 (AudioBuffer 10), BufferSettled 1,
               ResumeResolved 1, SwitchAudio 1, LoaderLoaded 2 (AudioBuffer 11)] audioAtLoad"

section \<open>Predicates on the audio cache\<close>

text \<open>
  Two facts hold of the cache in every state the events can reach: a pending decode of a
  URL is the cache entry of that URL (so there is at most one decode in flight per URL),
  and every promise in use is older than \<open>nextPromise\<close>.
\<close>

definition cacheInv :: "audio_world \<Rightarrow> bool" where
  "cacheInv w \<longleftrightarrow>
     (\<forall>p u. promises w p = Some (Pending u) \<longrightarrow> buffers w u = Some p)
   \<and> (\<forall>p. promises w p \<noteq> None \<longrightarrow> p < nextPromise w)"

text \<open>The events that settle promise \<open>p\<close>: the two callbacks of the loader for it.\<close>

fun settles :: "nat \<Rightarrow> audio_event \<Rightarrow> bool" where
  "settles p (LoaderLoaded q b) = (q = p)"
| "settles p (LoaderFailed q e) = (q = p)"
| "settles p _ = False"

fun isPending :: "promise \<Rightarrow> bool" where
  "isPending (Pending u) = True"
| "isPending _ = False"

text \<open>The cache as such: the map, the promises, the next promise and the loader calls.\<close>

definition cacheOf :: "audio_world \<Rightarrow> (url \<rightharpoonup> nat) \<times> (nat \<rightharpoonup> promise) \<times> nat \<times> url list" where
  "cacheOf w = (buffers w, promises w, nextPromise w, loads w)"

section \<open>Palette and halo theorems\<close>

lemma selectPalette_out_of_range:
  "js_index paletteOptions index = None \<Longrightarrow> selectPalette index = colors (paletteOptions ! 0)"
  by (simp add: selectPalette_def coalesce_def)

lemma selectPalette_zero: "selectPalette 0 = colors (paletteOptions ! 0)"
  by (simp add: selectPalette_def coalesce_def js_index_def paletteOptions_def)

text \<open>
  The state after the writes of the first palette, field by field, with the constants of
  \<open>paletteOptions[0].colors\<close> and, for the two keys that palette does not have, the
  defaults 1.35 and 0.8.
\<close>

lemma writePalette_first:
  "writePalette (colors (paletteOptions ! 0)) s =
     s \<lparr> uColorA := ''#2077ff'',
         uColorB := ''#ff5bd1'',
         uGlow := 1.0,
         haloColor := ''#1e6bff'',
         haloBaseOpacity := 0.12,
         haloMaterialOpacity := 0.12,
         floorMatEmissive := ''#0b1835'',
         floorMatEmissiveIntensity := 0.6,
         keyLightColor := ''#4aa8ff'',
         keyLightIntensity := 1.35,
         rimLightColor := ''#ff4d9d'',
         rimLightIntensity := 0.8,
         hemiLightColor := ''#87b9ff'',
         hemiLightGroundColor := ''#050505'',
         fogColor := ''#040712'',
         clearColor := ''#040712'',
         bodyBackground := ''radial-gradient(circle at center, #0c1024 0%, #040614 42%, #010106 100%)'',
         overlayBackground :=
           ''radial-gradient(circle at var(--cursor-x, 50%) var(--cursor-y, 50%), rgba(33, 136, 255, 0.24), transparent 45%)'' \<rparr>"
  by (simp add: writePalette_def paletteOptions_def coalesce_def)

text \<open>
  Claim C10. For an integer index with no palette entry (negative, or at least the length
  of \<open>paletteOptions\<close>), \<open>applyPalette\<close> returns normally and the state it returns is the
  given one with every one of the eighteen style writes carrying the first palette's
  value (stated with the constants themselves and, again, as the writes of
  \<open>paletteOptions[0].colors\<close>), and with the out-of-range index in
  \<open>currentPaletteIndex\<close>: the committed index names no palette, while the colours
  applied are those of palette 0. It differs from \<open>applyPalette 0\<close> in the committed index
  only.
\<close>

theorem applyPalette_out_of_range:
  assumes "index < 0 \<or> int (length paletteOptions) \<le> index"
  shows "applyPalette index s =
           s \<lparr> uColorA := ''#2077ff'',
               uColorB := ''#ff5bd1'',
               uGlow := 1.0,
               haloColor := ''#1e6bff'',
               haloBaseOpacity := 0.12,
               haloMaterialOpacity := 0.12,
               floorMatEmissive := ''#0b1835'',
               floorMatEmissiveIntensity := 0.6,
               keyLightColor := ''#4aa8ff'',
               keyLightIntensity := 1.35,
               rimLightColor := ''#ff4d9d'',
               rimLightIntensity := 0.8,
               hemiLightColor := ''#87b9ff'',
               hemiLightGroundColor := ''#050505'',
               fogColor := ''#040712'',
               clearColor := ''#040712'',
               bodyBackground := ''radial-gradient(circle at center, #0c1024 0%, #040614 42%, #010106 100%)'',
               overlayBackground :=
                 ''radial-gradient(circle at var(--cursor-x, 50%) var(--cursor-y, 50%), rgba(33, 136, 255, 0.24), transparent 45%)'',
               currentPaletteIndex := index \<rparr>
       \<and> applyPalette index s
            = (writePalette (colors (paletteOptions ! 0)) s) \<lparr> currentPaletteIndex := index \<rparr>
       \<and> applyPalette index s = (applyPalette 0 s) \<lparr> currentPaletteIndex := index \<rparr>
       \<and> currentPaletteIndex (applyPalette index s) = index
       \<and> js_index paletteOptions (currentPaletteIndex (applyPalette index s)) = None
       \<and> uColorA (applyPalette index s) = auroraA (colors (paletteOptions ! 0))
       \<and> haloBaseOpacity (applyPalette index s) = 0.12"
proof -
  from assms have none: "js_index paletteOptions index = None"
    by (auto simp: js_index_def)
  have sel: "selectPalette index = colors (paletteOptions ! 0)"
    by (rule selectPalette_out_of_range [OF none])
  have first: "applyPalette index s
                 = (writePalette (colors (paletteOptions ! 0)) s) \<lparr> currentPaletteIndex := index \<rparr>"
    by (simp add: applyPalette_def sel)
  have zero: "applyPalette index s = (applyPalette 0 s) \<lparr> currentPaletteIndex := index \<rparr>"
    by (simp add: applyPalette_def sel selectPalette_zero)
  have cur: "currentPaletteIndex (applyPalette index s) = index"
    by (simp add: applyPalette_def)
  have a: "uColorA (applyPalette index s) = auroraA (colors (paletteOptions ! 0))"
    by (simp add: first writePalette_def)
  have h: "haloBaseOpacity (applyPalette index s) = 0.12"
    by (simp add: first writePalette_first)
  have full: "applyPalette index s =
           s \<lparr> uColorA := ''#2077ff'',
               uColorB := ''#ff5bd1'',
               uGlow := 1.0,
               haloColor := ''#1e6bff'',
               haloBaseOpacity := 0.12,
               haloMaterialOpacity := 0.12,
               floorMatEmissive := ''#0b1835'',
               floorMatEmissiveIntensity := 0.6,
               keyLightColor := ''#4aa8ff'',
               keyLightIntensity := 1.35,
               rimLightColor := ''#ff4d9d'',
               rimLightIntensity := 0.8,
               hemiLightColor := ''#87b9ff'',
               hemiLightGroundColor := ''#050505'',
               fogColor := ''#040712'',
               clearColor := ''#040712'',
               bodyBackground := ''radial-gradient(circle at center, #0c1024 0%, #040614 42%, #010106 100%)'',
               overlayBackground :=
                 ''radial-gradient(circle at var(--cursor-x, 50%) var(--cursor-y, 50%), rgba(33, 136, 255, 0.24), transparent 45%)'',
               currentPaletteIndex := index \<rparr>"
    unfolding first writePalette_first ..
  from full first zero cur none a h show ?thesis by simp
qed

text \<open>
  The state the theorem is tried on has the second palette applied, so that every style
  field differs from the first palette's value before the call.
\<close>

theorem applyPalette_out_of_range_witness:
  "applyPalette 7 (applyPalette 1 sceneAtLoad) =
     \<lparr> uColorA = ''#2077ff'', uColorB = ''#ff5bd1'', uGlow = 1.0,
       haloColor = ''#1e6bff'', haloBaseOpacity = 0.12, haloMaterialOpacity = 0.12,
       floorMatEmissive = ''#0b1835'', floorMatEmissiveIntensity = 0.6,
       keyLightColor = ''#4aa8ff'', keyLightIntensity = 1.35,
       rimLightColor = ''#ff4d9d'', rimLightIntensity = 0.8,
       hemiLightColor = ''#87b9ff'', hemiLightGroundColor = ''#050505'',
       fogColor = ''#040712'', clearColor = ''#040712'',
       bodyBackground = ''radial-gradient(circle at center, #0c1024 0%, #040614 42%, #010106 100%)'',
       overlayBackground =
         ''radial-gradient(circle at var(--cursor-x, 50%) var(--cursor-y, 50%), rgba(33, 136, 255, 0.24), transparent 45%)'',
       currentPaletteIndex = 7 \<rparr>
   \<and> uColorA (applyPalette 1 sceneAtLoad) = ''#ff6a88''
   \<and> js_index paletteOptions 7 = None"
proof -
  have a: "(7::int) < 0 \<or> int (length paletteOptions) \<le> 7"
    by (simp add: paletteOptions_def)
  note t = applyPalette_out_of_range [OF a, of "applyPalette 1 sceneAtLoad"]
  from t have full: "applyPalette 7 (applyPalette 1 sceneAtLoad) =
           (applyPalette 1 sceneAtLoad)
             \<lparr> uColorA := ''#2077ff'',
               uColorB := ''#ff5bd1'',
               uGlow := 1.0,
               haloColor := ''#1e6bff'',
               haloBaseOpacity := 0.12,
               haloMaterialOpacity := 0.12,
               floorMatEmissive := ''#0b1835'',
               floorMatEmissiveIntensity := 0.6,
               keyLightColor := ''#4aa8ff'',
               keyLightIntensity := 1.35,
               rimLightColor := ''#ff4d9d'',
               rimLightIntensity := 0.8,
               hemiLightColor := ''#87b9ff'',
               hemiLightGroundColor := ''#050505'',
               fogColor := ''#040712'',
               clearColor := ''#040712'',
               bodyBackground := ''radial-gradient(circle at center, #0c1024 0%, #040614 42%, #010106 100%)'',
               overlayBackground :=
                 ''radial-gradient(circle at var(--cursor-x, 50%) var(--cursor-y, 50%), rgba(33, 136, 255, 0.24), transparent 45%)'',
               currentPaletteIndex := 7 \<rparr>"
    and t2: "currentPaletteIndex (applyPalette 7 (applyPalette 1 sceneAtLoad)) = 7"
    and t3: "js_index paletteOptions
               (currentPaletteIndex (applyPalette 7 (applyPalette 1 sceneAtLoad))) = None"
    by blast+
  from t3 have none: "js_index paletteOptions 7 = None" unfolding t2 .
  have before: "uColorA (applyPalette 1 sceneAtLoad) = ''#ff6a88''"
    by (simp add: applyPalette_def writePalette_def selectPalette_def js_index_def
        paletteOptions_def coalesce_def)
  have rec: "(applyPalette 1 sceneAtLoad)
             \<lparr> uColorA := ''#2077ff'',
               uColorB := ''#ff5bd1'',
               uGlow := 1.0,
               haloColor := ''#1e6bff'',
               haloBaseOpacity := 0.12,
               haloMaterialOpacity := 0.12,
               floorMatEmissive := ''#0b1835'',
               floorMatEmissiveIntensity := 0.6,
               keyLightColor := ''#4aa8ff'',
               keyLightIntensity := 1.35,
               rimLightColor := ''#ff4d9d'',
               rimLightIntensity := 0.8,
               hemiLightColor := ''#87b9ff'',
               hemiLightGroundColor := ''#050505'',
               fogColor := ''#040712'',
               clearColor := ''#040712'',
               bodyBackground := ''radial-gradient(circle at center, #0c1024 0%, #040614 42%, #010106 100%)'',
               overlayBackground :=
                 ''radial-gradient(circle at var(--cursor-x, 50%) var(--cursor-y, 50%), rgba(33, 136, 255, 0.24), transparent 45%)'',
               currentPaletteIndex := 7 \<rparr> =
     \<lparr> uColorA = ''#2077ff'', uColorB = ''#ff5bd1'', uGlow = 1.0,
       haloColor = ''#1e6bff'', haloBaseOpacity = 0.12, haloMaterialOpacity = 0.12,
       floorMatEmissive = ''#0b1835'', floorMatEmissiveIntensity = 0.6,
       keyLightColor = ''#4aa8ff'', keyLightIntensity = 1.35,
       rimLightColor = ''#ff4d9d'', rimLightIntensity = 0.8,
       hemiLightColor = ''#87b9ff'', hemiLightGroundColor = ''#050505'',
       fogColor = ''#040712'', clearColor = ''#040712'',
       bodyBackground = ''radial-gradient(circle at center, #0c1024 0%, #040614 42%, #010106 100%)'',
       overlayBackground =
         ''radial-gradient(circle at var(--cursor-x, 50%) var(--cursor-y, 50%), rgba(33, 136, 255, 0.24), transparent 45%)'',
       currentPaletteIndex = 7 \<rparr>"
    by (simp add: applyPalette_def writePalette_def sceneAtLoad_def)
  from full rec before none show ?thesis by simp
qed

text \<open>
  Claim C8, as the code has it. For base opacity 0.12 and the amplitude samples 0, 1 and
  1.8 the frame opacity is \<open>clamp (b * (0.7 + a * 0.6)) 0.02 0.6\<close>, and at all three
  samples the raw product lies inside the clamp range, so the opacity is the raw product:
  0.084, 0.156 and 0.2136. The upper clamp value 0.6 is not reached at 1.8.
\<close>

theorem haloFrameOpacity_samples:
  "haloFrameOpacity 0.12 0 = clamp (0.12 * (0.7 + 0 * 0.6)) 0.02 0.6
   \<and> haloFrameOpacity 0.12 1 = clamp (0.12 * (0.7 + 1 * 0.6)) 0.02 0.6
   \<and> haloFrameOpacity 0.12 1.8 = clamp (0.12 * (0.7 + 1.8 * 0.6)) 0.02 0.6
   \<and> haloFrameOpacity 0.12 0 = 0.084
   \<and> haloFrameOpacity 0.12 1 = 0.156
   \<and> haloFrameOpacity 0.12 1.8 = 0.2136
   \<and> haloFrameOpacity 0.12 1.8 = 0.12 * (0.7 + 1.8 * 0.6)"
  by (simp add: haloFrameOpacity_def clamp_def)

text \<open>
  The claim's last clause fails: at amplitude 1.8 the opacity is not the upper clamp
  value.
\<close>

theorem haloFrameOpacity_upper_clamp_counterexample:
  "haloFrameOpacity 0.12 1.8 \<noteq> 0.6"
  by (simp add: haloFrameOpacity_def clamp_def)

section \<open>The audio buffer cache\<close>

lemma cacheInv_atLoad: "cacheInv audioAtLoad"
  by (simp add: cacheInv_def audioAtLoad_def)

lemma loadAudioBuffer_hit: "buffers w u = Some p \<Longrightarrow> loadAudioBuffer u w = (p, w)"
  by (simp add: loadAudioBuffer_def)

lemma loadAudioBuffer_miss:
  "buffers w u = None \<Longrightarrow>
   loadAudioBuffer u w =
     (nextPromise w,
      w \<lparr> promises := (promises w)(nextPromise w \<mapsto> Pending u), nextPromise := Suc (nextPromise w),
          loads := loads w @ [u], buffers := (buffers w)(u \<mapsto> nextPromise w) \<rparr>)"
  by (simp add: loadAudioBuffer_def Let_def)

lemma cacheOf_afterBuffer: "cacheOf (afterBuffer r w) = cacheOf w"
  by (simp add: afterBuffer_def cacheOf_def finishTask_def warnAudio_def Let_def
      split: option.splits audio_task.splits promise.splits)

lemma cacheOf_afterResume: "cacheOf (afterResume r w) = cacheOf w"
  by (simp add: afterResume_def cacheOf_def finishTask_def warnAudio_def
      split: option.splits audio_task.splits)

lemma cacheOf_resumeRejected: "cacheOf (resumeRejected r e w) = cacheOf w"
  by (simp add: resumeRejected_def cacheOf_def finishTask_def warnAudio_def
      split: option.splits audio_task.splits)

lemma cacheOf_unlock:
  "cacheOf (unlockResolved w) = cacheOf w" "cacheOf (unlockRejected e w) = cacheOf w"
  by (simp_all add: unlockResolved_def unlockRejected_def cacheOf_def)

lemma cacheOf_switchAudio:
  "cacheOf (switchAudio index w) = cacheOf w
   \<or> (\<exists>u. cacheOf (switchAudio index w) = cacheOf (snd (loadAudioBuffer u w)))"
  by (auto simp add: switchAudio_def cacheOf_def Let_def loadAudioBuffer_def
      split: option.splits prod.splits)

lemma cache_fields:
  "cacheOf w' = cacheOf w \<Longrightarrow>
     buffers w' = buffers w \<and> promises w' = promises w \<and> nextPromise w' = nextPromise w \<and> loads w' = loads w"
  by (simp add: cacheOf_def)

lemma cacheInv_cong: "cacheOf w' = cacheOf w \<Longrightarrow> cacheInv w' = cacheInv w"
  by (simp add: cacheInv_def cacheOf_def)

lemma cacheInv_loadAudioBuffer: "cacheInv w \<Longrightarrow> cacheInv (snd (loadAudioBuffer u w))"
  by (cases "buffers w u") (auto simp: loadAudioBuffer_hit loadAudioBuffer_miss cacheInv_def less_Suc_eq)

lemma pending_unique:
  "cacheInv w \<Longrightarrow> promises w p = Some (Pending u) \<Longrightarrow> promises w q = Some (Pending u) \<Longrightarrow> p = q"
  unfolding cacheInv_def by (metis option.inject)

lemma loaderLoaded_pending:
  "promises w p = Some (Pending u) \<Longrightarrow>
   loaderLoaded p b w =
        w \<lparr> promises := (promises w)(p \<mapsto> Fulfilled b, nextPromise w \<mapsto> Fulfilled b),
            nextPromise := Suc (nextPromise w),
            buffers := (buffers w)(u \<mapsto> nextPromise w) \<rparr>"
  by (simp add: loaderLoaded_def Let_def)

lemma loaderLoaded_idle:
  "\<forall>u. promises w p \<noteq> Some (Pending u) \<Longrightarrow> loaderLoaded p b w = w"
  by (simp add: loaderLoaded_def split: option.splits promise.splits)

lemma loaderFailed_pending:
  "promises w p = Some (Pending u) \<Longrightarrow>
   loaderFailed p e w = w \<lparr> promises := (promises w)(p \<mapsto> Rejected e) \<rparr>"
  by (simp add: loaderFailed_def)

lemma loaderFailed_idle:
  "\<forall>u. promises w p \<noteq> Some (Pending u) \<Longrightarrow> loaderFailed p e w = w"
  by (simp add: loaderFailed_def split: option.splits promise.splits)

lemma cacheInv_loaderLoaded:
  assumes inv: "cacheInv w"
  shows "cacheInv (loaderLoaded p b w)"
proof (cases "\<exists>u. promises w p = Some (Pending u)")
  case True
  then obtain u where pu: "promises w p = Some (Pending u)" by blast
  define w' where "w' = loaderLoaded p b w"
  have f: "promises w' = (promises w)(p \<mapsto> Fulfilled b, nextPromise w \<mapsto> Fulfilled b)"
    "nextPromise w' = Suc (nextPromise w)"
    "buffers w' = (buffers w)(u \<mapsto> nextPromise w)"
    by (simp_all add: w'_def loaderLoaded_pending [OF pu])
  from inv pu have lt: "p < nextPromise w" by (auto simp: cacheInv_def)
  have entry: "buffers w' v = Some q" if "promises w' q = Some (Pending v)" for q v
  proof -
    from that have q: "promises w q = Some (Pending v)" and qp: "q \<noteq> p"
      by (auto simp: f split: if_splits)
    from pending_unique [OF inv pu] q qp have "v \<noteq> u" by auto
    moreover from inv q have "buffers w v = Some q" by (simp add: cacheInv_def)
    ultimately show ?thesis by (simp add: f)
  qed
  have fresh: "q < nextPromise w'" if "promises w' q \<noteq> None" for q
    using that inv lt by (auto simp: f cacheInv_def less_Suc_eq split: if_splits)
  from entry fresh show ?thesis
    unfolding w'_def [symmetric] cacheInv_def by blast
next
  case False
  with inv show ?thesis by (simp add: loaderLoaded_idle)
qed

lemma cacheInv_loaderFailed: "cacheInv w \<Longrightarrow> cacheInv (loaderFailed p e w)"
proof (cases "\<exists>u. promises w p = Some (Pending u)")
  case True
  assume inv: "cacheInv w"
  from True obtain u where pu: "promises w p = Some (Pending u)" by blast
  show ?thesis
    unfolding loaderFailed_pending [OF pu] using inv pu
    by (simp add: cacheInv_def)
next
  case False
  then show "cacheInv w \<Longrightarrow> ?thesis" by (simp add: loaderFailed_idle)
qed

lemma cacheInv_switchAudio: "cacheInv w \<Longrightarrow> cacheInv (switchAudio index w)"
proof -
  assume inv: "cacheInv w"
  from cacheOf_switchAudio [of index w] show ?thesis
  proof
    assume "cacheOf (switchAudio index w) = cacheOf w"
    from cacheInv_cong [OF this] inv show ?thesis by simp
  next
    assume "\<exists>u. cacheOf (switchAudio index w) = cacheOf (snd (loadAudioBuffer u w))"
    then obtain u where "cacheOf (switchAudio index w) = cacheOf (snd (loadAudioBuffer u w))" ..
    from cacheInv_cong [OF this] cacheInv_loadAudioBuffer [OF inv, of u] show ?thesis by simp
  qed
qed

lemma cacheInv_step: "cacheInv w \<Longrightarrow> cacheInv (audioStep e w)"
  by (cases e)
    (simp_all add: cacheInv_loaderLoaded cacheInv_loaderFailed cacheInv_switchAudio
      cacheInv_cong [OF cacheOf_afterBuffer] cacheInv_cong [OF cacheOf_afterResume]
      cacheInv_cong [OF cacheOf_resumeRejected] cacheInv_cong [OF cacheOf_unlock(1)]
      cacheInv_cong [OF cacheOf_unlock(2)])

lemma entry_loadAudioBuffer:
  assumes "cacheInv w" "buffers w u = Some p" "promises w p = Some r"
  shows "buffers (snd (loadAudioBuffer v w)) u = Some p
       \<and> promises (snd (loadAudioBuffer v w)) p = Some r
       \<and> count_list (loads (snd (loadAudioBuffer v w))) u = count_list (loads w) u"
proof (cases "buffers w v")
  case None
  with assms(2) have "v \<noteq> u" by auto
  moreover from assms have "p \<noteq> nextPromise w" by (auto simp: cacheInv_def)
  ultimately show ?thesis using assms by (simp add: loadAudioBuffer_miss [OF None])
next
  case (Some q)
  then show ?thesis using assms by (simp add: loadAudioBuffer_hit)
qed

lemma entry_loaderLoaded:
  assumes inv: "cacheInv w" and bu: "buffers w u = Some p" and pr: "promises w p = Some r"
    and ns: "isPending r \<longrightarrow> q \<noteq> p"
  shows "buffers (loaderLoaded q b w) u = Some p
       \<and> promises (loaderLoaded q b w) p = Some r
       \<and> count_list (loads (loaderLoaded q b w)) u = count_list (loads w) u"
proof (cases "\<exists>v. promises w q = Some (Pending v)")
  case True
  then obtain v where qv: "promises w q = Some (Pending v)" by blast
  from inv qv have bv: "buffers w v = Some q" by (simp add: cacheInv_def)
  have qp: "q \<noteq> p"
  proof
    assume "q = p"
    with qv pr have "r = Pending v" by simp
    with ns \<open>q = p\<close> show False by simp
  qed
  with bv bu have vu: "v \<noteq> u" by auto
  from inv pr have "p \<noteq> nextPromise w" by (auto simp: cacheInv_def)
  with qp vu show ?thesis using bu pr by (simp add: loaderLoaded_pending [OF qv])
next
  case False
  then show ?thesis using bu pr by (simp add: loaderLoaded_idle)
qed

lemma entry_loaderFailed:
  assumes inv: "cacheInv w" and bu: "buffers w u = Some p" and pr: "promises w p = Some r"
    and ns: "isPending r \<longrightarrow> q \<noteq> p"
  shows "buffers (loaderFailed q e w) u = Some p
       \<and> promises (loaderFailed q e w) p = Some r
       \<and> count_list (loads (loaderFailed q e w)) u = count_list (loads w) u"
proof (cases "\<exists>v. promises w q = Some (Pending v)")
  case True
  then obtain v where qv: "promises w q = Some (Pending v)" by blast
  have qp: "q \<noteq> p"
  proof
    assume "q = p"
    with qv pr have "r = Pending v" by simp
    with ns \<open>q = p\<close> show False by simp
  qed
  then show ?thesis using bu pr by (simp add: loaderFailed_pending [OF qv])
next
  case False
  then show ?thesis using bu pr by (simp add: loaderFailed_idle)
qed

lemma entry_step:
  assumes inv: "cacheInv w" and bu: "buffers w u = Some p" and pr: "promises w p = Some r"
    and ns: "isPending r \<longrightarrow> \<not> settles p e"
  shows "buffers (audioStep e w) u = Some p
       \<and> promises (audioStep e w) p = Some r
       \<and> count_list (loads (audioStep e w)) u = count_list (loads w) u"
proof (cases e)
  case (SwitchAudio index)
  from cacheOf_switchAudio [of index w] show ?thesis
  proof
    assume "cacheOf (switchAudio index w) = cacheOf w"
    from cache_fields [OF this] show ?thesis using bu pr SwitchAudio by simp
  next
    assume "\<exists>v. cacheOf (switchAudio index w) = cacheOf (snd (loadAudioBuffer v w))"
    then obtain v where "cacheOf (switchAudio index w) = cacheOf (snd (loadAudioBuffer v w))" ..
    from cache_fields [OF this] entry_loadAudioBuffer [OF inv bu pr, of v]
    show ?thesis using SwitchAudio by simp
  qed
next
  case (LoaderLoaded q b)
  with ns have "isPending r \<longrightarrow> q \<noteq> p" by simp
  from entry_loaderLoaded [OF inv bu pr this] show ?thesis using LoaderLoaded by simp
next
  case (LoaderFailed q x)
  with ns have "isPending r \<longrightarrow> q \<noteq> p" by simp
  from entry_loaderFailed [OF inv bu pr this] show ?thesis using LoaderFailed by simp
next
  case (BufferSettled k)
  from cache_fields [OF cacheOf_afterBuffer [of k w]] show ?thesis
    using bu pr BufferSettled by simp
next
  case (ResumeResolved k)
  from cache_fields [OF cacheOf_afterResume [of k w]] show ?thesis
    using bu pr ResumeResolved by simp
next
  case (ResumeRejected k x)
  from cache_fields [OF cacheOf_resumeRejected [of k x w]] show ?thesis
    using bu pr ResumeRejected by simp
next
  case UnlockResolved
  from cache_fields [OF cacheOf_unlock(1) [of w]] show ?thesis
    using bu pr UnlockResolved by simp
next
  case (UnlockRejected x)
  from cache_fields [OF cacheOf_unlock(2) [of x w]] show ?thesis
    using bu pr UnlockRejected by simp
qed

lemma entry_run:
  assumes "cacheInv w" "buffers w u = Some p" "promises w p = Some r"
    and "isPending r \<longrightarrow> (\<forall>e\<in>set es. \<not> settles p e)"
  shows "buffers (audioRun es w) u = Some p
       \<and> promises (audioRun es w) p = Some r
       \<and> count_list (loads (audioRun es w)) u = count_list (loads w) u"
  using assms
proof (induction es arbitrary: w)
  case Nil
  then show ?case by simp
next
  case (Cons e es)
  from Cons.prems have ns: "isPending r \<longrightarrow> \<not> settles p e" by simp
  note st = entry_step [OF Cons.prems(1-3) ns]
  from Cons.prems(4) have rest: "isPending r \<longrightarrow> (\<forall>e\<in>set es. \<not> settles p e)" by simp
  from Cons.IH [OF cacheInv_step [OF Cons.prems(1)] _ _ rest, of e] st
  show ?case by simp
qed

lemma cacheInv_run: "cacheInv w \<Longrightarrow> cacheInv (audioRun es w)"
  by (induction es arbitrary: w) (simp_all add: cacheInv_step)

lemma promise_step:
  assumes inv: "cacheInv w" and pr: "promises w p = Some r" and st: "\<not> isPending r"
  shows "promises (audioStep e w) p = Some r"
proof -
  from inv pr have fresh: "p \<noteq> nextPromise w" by (auto simp: cacheInv_def)
  show ?thesis
  proof (cases e)
    case (SwitchAudio index)
    from cacheOf_switchAudio [of index w] show ?thesis
    proof
      assume "cacheOf (switchAudio index w) = cacheOf w"
      from cache_fields [OF this] show ?thesis using pr SwitchAudio by simp
    next
      assume "\<exists>v. cacheOf (switchAudio index w) = cacheOf (snd (loadAudioBuffer v w))"
      then obtain v where c: "cacheOf (switchAudio index w) = cacheOf (snd (loadAudioBuffer v w))" ..
      have "promises (snd (loadAudioBuffer v w)) p = Some r"
        using pr fresh by (cases "buffers w v") (simp_all add: loadAudioBuffer_hit loadAudioBuffer_miss)
      with cache_fields [OF c] show ?thesis using SwitchAudio by simp
    qed
  next
    case (LoaderLoaded q b)
    show ?thesis
    proof (cases "\<exists>v. promises w q = Some (Pending v)")
      case True
      then obtain v where qv: "promises w q = Some (Pending v)" by blast
      with pr st have "q \<noteq> p" by auto
      with fresh pr show ?thesis using LoaderLoaded by (simp add: loaderLoaded_pending [OF qv])
    next
      case False
      then show ?thesis using pr LoaderLoaded by (simp add: loaderLoaded_idle)
    qed
  next
    case (LoaderFailed q x)
    show ?thesis
    proof (cases "\<exists>v. promises w q = Some (Pending v)")
      case True
      then obtain v where qv: "promises w q = Some (Pending v)" by blast
      with pr st have "q \<noteq> p" by auto
      with pr show ?thesis using LoaderFailed by (simp add: loaderFailed_pending [OF qv])
    next
      case False
      then show ?thesis using pr LoaderFailed by (simp add: loaderFailed_idle)
    qed
  next
    case (BufferSettled k)
    from cache_fields [OF cacheOf_afterBuffer [of k w]] show ?thesis
      using pr BufferSettled by simp
  next
    case (ResumeResolved k)
    from cache_fields [OF cacheOf_afterResume [of k w]] show ?thesis
      using pr ResumeResolved by simp
  next
    case (ResumeRejected k x)
    from cache_fields [OF cacheOf_resumeRejected [of k x w]] show ?thesis
      using pr ResumeRejected by simp
  next
    case UnlockResolved
    from cache_fields [OF cacheOf_unlock(1) [of w]] show ?thesis
      using pr UnlockResolved by simp
  next
    case (UnlockRejected x)
    from cache_fields [OF cacheOf_unlock(2) [of x w]] show ?thesis
      using pr UnlockRejected by simp
  qed
qed

lemma promise_run:
  "cacheInv w \<Longrightarrow> promises w p = Some r \<Longrightarrow> \<not> isPending r
   \<Longrightarrow> promises (audioRun es w) p = Some r"
proof (induction es arbitrary: w)
  case Nil
  then show ?case by simp
next
  case (Cons e es)
  from Cons.IH [OF cacheInv_step [OF Cons.prems(1)] promise_step [OF Cons.prems] Cons.prems(3)]
  show ?case by simp
qed

text \<open>
  Claim C5. On a miss, \<open>loadAudioBuffer\<close> stores the pending promise under the URL at
  once and asks the loader once. Whatever events follow while that decode is in flight
  (none of them a callback of the loader for it), a second get for the same URL returns
  the same promise, changes nothing and starts no decode: the loader has been asked for the
  URL exactly once more than before. When the loader delivers buffer \<open>b\<close>, the promise both
  callers hold is fulfilled with \<open>b\<close>, and after any further events every get for the URL
  returns a promise fulfilled with \<open>b\<close>, again without a new decode.
\<close>

theorem loadAudioBuffer_single_flight:
  assumes inv: "cacheInv w" and miss: "buffers w u = None"
    and inflight: "\<forall>e\<in>set es. \<not> settles (nextPromise w) e"
  shows "(case loadAudioBuffer u w of (p1, w1) \<Rightarrow>
           buffers w1 u = Some p1 \<and> promises w1 p1 = Some (Pending u) \<and> loads w1 = loads w @ [u]
         \<and> (case loadAudioBuffer u (audioRun es w1) of (p2, w2) \<Rightarrow>
              p2 = p1 \<and> w2 = audioRun es w1
            \<and> count_list (loads w2) u = Suc (count_list (loads w) u)
            \<and> (\<forall>es'. case loadAudioBuffer u (audioRun es' (loaderLoaded p1 b w2)) of (p3, w3) \<Rightarrow>
                 promises w3 p1 = Some (Fulfilled b) \<and> promises w3 p3 = Some (Fulfilled b)
                 \<and> w3 = audioRun es' (loaderLoaded p1 b w2)
                 \<and> count_list (loads w3) u = Suc (count_list (loads w) u))))"
proof -
  define p1 where "p1 = nextPromise w"
  define w1 where "w1 = snd (loadAudioBuffer u w)"
  have l1: "loadAudioBuffer u w = (p1, w1)"
    by (simp add: w1_def p1_def loadAudioBuffer_miss [OF miss])
  have b1: "buffers w1 u = Some p1" and pr1: "promises w1 p1 = Some (Pending u)"
    and ld1: "loads w1 = loads w @ [u]"
    by (simp_all add: w1_def p1_def loadAudioBuffer_miss [OF miss])
  have inv1: "cacheInv w1"
    unfolding w1_def by (rule cacheInv_loadAudioBuffer [OF inv])
  define w2 where "w2 = audioRun es w1"
  have inv2: "cacheInv w2" unfolding w2_def by (rule cacheInv_run [OF inv1])
  from inflight have "isPending (Pending u) \<longrightarrow> (\<forall>e\<in>set es. \<not> settles p1 e)"
    by (simp add: p1_def)
  from entry_run [OF inv1 b1 pr1 this]
  have b2: "buffers w2 u = Some p1" and pr2: "promises w2 p1 = Some (Pending u)"
    and c2: "count_list (loads w2) u = count_list (loads w1) u"
    by (simp_all add: w2_def)
  have l2: "loadAudioBuffer u w2 = (p1, w2)" by (rule loadAudioBuffer_hit [OF b2])
  have c2': "count_list (loads w2) u = Suc (count_list (loads w) u)"
    by (simp add: c2 ld1)
  define w4 where "w4 = loaderLoaded p1 b w2"
  have inv4: "cacheInv w4" unfolding w4_def by (rule cacheInv_loaderLoaded [OF inv2])
  have w4: "promises w4 p1 = Some (Fulfilled b)"
    "buffers w4 u = Some (nextPromise w2)"
    "promises w4 (nextPromise w2) = Some (Fulfilled b)"
    "loads w4 = loads w2"
    by (simp_all add: w4_def loaderLoaded_pending [OF pr2])
  have later: "case loadAudioBuffer u (audioRun es' w4) of (p3, w3) \<Rightarrow>
                 promises w3 p1 = Some (Fulfilled b) \<and> promises w3 p3 = Some (Fulfilled b)
                 \<and> w3 = audioRun es' w4
                 \<and> count_list (loads w3) u = Suc (count_list (loads w) u)" for es'
  proof -
    have np: "isPending (Fulfilled b) \<longrightarrow> (\<forall>e\<in>set es'. \<not> settles (nextPromise w2) e)" by simp
    from entry_run [OF inv4 w4(2) w4(3) np]
    have e5: "buffers (audioRun es' w4) u = Some (nextPromise w2)"
      and p5: "promises (audioRun es' w4) (nextPromise w2) = Some (Fulfilled b)"
      and c5: "count_list (loads (audioRun es' w4)) u = count_list (loads w4) u"
      by simp_all
    have "promises (audioRun es' w4) p1 = Some (Fulfilled b)"
      by (rule promise_run [OF inv4 w4(1)]) simp
    then show ?thesis
      by (simp add: loadAudioBuffer_hit [OF e5] p5 c5 w4(4) c2')
  qed
  show ?thesis
    using later by (simp add: l1 b1 pr1 ld1 w2_def [symmetric] l2 c2' w4_def [symmetric])
qed


text \<open>The equations that evaluate an audio session on concrete events.\<close>

lemmas audio_eval =
  audioAtLoad_def switchAudio_def loadAudioBuffer_def loaderLoaded_def loaderFailed_def
  afterBuffer_def afterResume_def resumeRejected_def finishTask_def warnAudio_def
  unlockResolved_def unlockRejected_def js_index_def audioOptions_def coalesce_def Let_def play_def stop_def setBuffer_def
  setLoop_def setVolume_def

theorem loadAudioBuffer_single_flight_witness:
  "(case loadAudioBuffer ''./assets/KMGY%20.mp3'' audioAtLoad of (p1, w1) \<Rightarrow>
           buffers w1 ''./assets/KMGY%20.mp3'' = Some p1
         \<and> promises w1 p1 = Some (Pending ''./assets/KMGY%20.mp3'')
         \<and> loads w1 = loads audioAtLoad @ [''./assets/KMGY%20.mp3'']
         \<and> (case loadAudioBuffer ''./assets/KMGY%20.mp3''
                     (audioRun [SwitchAudio 0, LoaderLoaded 1 (AudioBuffer 3)] w1) of (p2, w2) \<Rightarrow>
              p2 = p1 \<and> w2 = audioRun [SwitchAudio 0, LoaderLoaded 1 (AudioBuffer 3)] w1
            \<and> count_list (loads w2) ''./assets/KMGY%20.mp3''
                = Suc (count_list (loads audioAtLoad) ''./assets/KMGY%20.mp3'')
            \<and> (\<forall>es'. case loadAudioBuffer ''./assets/KMGY%20.mp3''
                              (audioRun es' (loaderLoaded p1 (AudioBuffer 7) w2)) of (p3, w3) \<Rightarrow>
                 promises w3 p1 = Some (Fulfilled (AudioBuffer 7))
                 \<and> promises w3 p3 = Some (Fulfilled (AudioBuffer 7))
                 \<and> w3 = audioRun es' (loaderLoaded p1 (AudioBuffer 7) w2)
                 \<and> count_list (loads w3) ''./assets/KMGY%20.mp3''
                     = Suc (count_list (loads audioAtLoad) ''./assets/KMGY%20.mp3''))))"
proof -
  have miss: "buffers audioAtLoad ''./assets/KMGY%20.mp3'' = None"
    by (simp add: audioAtLoad_def)
  have inflight: "\<forall>e\<in>set [SwitchAudio 0, LoaderLoaded 1 (AudioBuffer 3)].
      \<not> settles (nextPromise audioAtLoad) e"
    by (simp add: audioAtLoad_def)
  show ?thesis
    by (rule loadAudioBuffer_single_flight [OF cacheInv_atLoad miss inflight])
qed

text \<open>
  Claim C3, as the code has it. When the loader reports a failure for the pending decode
  of a URL, the rejected promise stays the cache entry of that URL: after any further
  events a get for the URL returns that same rejected promise, leaves the state as it is,
  and the loader has not been asked for the URL again.
\<close>

theorem loadAudioBuffer_failure_cached:
  assumes inv: "cacheInv w" and ent: "buffers w u = Some p"
    and pend: "promises w p = Some (Pending u)"
  shows "case loadAudioBuffer u (audioRun es (loaderFailed p e w)) of (p', w') \<Rightarrow>
           p' = p \<and> promises w' p = Some (Rejected e)
         \<and> w' = audioRun es (loaderFailed p e w)
         \<and> count_list (loads w') u = count_list (loads w) u"
proof -
  define w1 where "w1 = loaderFailed p e w"
  have inv1: "cacheInv w1" unfolding w1_def by (rule cacheInv_loaderFailed [OF inv])
  have f: "buffers w1 u = Some p" "promises w1 p = Some (Rejected e)" "loads w1 = loads w"
    using ent by (simp_all add: w1_def loaderFailed_pending [OF pend])
  have np: "isPending (Rejected e) \<longrightarrow> (\<forall>x\<in>set es. \<not> settles p x)" by simp
  from entry_run [OF inv1 f(1) f(2) np]
  have "buffers (audioRun es w1) u = Some p"
    and "promises (audioRun es w1) p = Some (Rejected e)"
    and "count_list (loads (audioRun es w1)) u = count_list (loads w1) u"
    by simp_all
  then show ?thesis
    by (simp add: w1_def [symmetric] loadAudioBuffer_hit f(3))
qed

theorem loadAudioBuffer_failure_cached_witness:
  "case loadAudioBuffer ''./assets/KMGY%20.mp3''
          (audioRun [SwitchAudio 1, SwitchAudio 0]
             (loaderFailed 0 (Error ''decode failed'') (switchAudio 1 audioAtLoad))) of
     (p', w') \<Rightarrow>
       p' = 0 \<and> promises w' 0 = Some (Rejected (Error ''decode failed''))
     \<and> w' = audioRun [SwitchAudio 1, SwitchAudio 0]
               (loaderFailed 0 (Error ''decode failed'') (switchAudio 1 audioAtLoad))
     \<and> count_list (loads w') ''./assets/KMGY%20.mp3''
         = count_list (loads (switchAudio 1 audioAtLoad)) ''./assets/KMGY%20.mp3''"
proof -
  have inv: "cacheInv (switchAudio 1 audioAtLoad)"
    by (rule cacheInv_switchAudio [OF cacheInv_atLoad])
  have ent: "buffers (switchAudio 1 audioAtLoad) ''./assets/KMGY%20.mp3'' = Some 0"
    by (simp add: audio_eval)
  have pend: "promises (switchAudio 1 audioAtLoad) 0 = Some (Pending ''./assets/KMGY%20.mp3'')"
    by (simp add: audio_eval)
  show ?thesis
    by (rule loadAudioBuffer_failure_cached [OF inv ent pend])
qed

text \<open>
  The claim as stated fails: after the failed decode of the second track, the next get
  returns the rejected promise 0 and the loader has still been asked only once.
\<close>

theorem loadAudioBuffer_retry_counterexample:
  "(let w = audioRun [SwitchAudio 1, LoaderFailed 0 (Error ''decode failed'')] audioAtLoad
    in loads w = [''./assets/KMGY%20.mp3'']
     \<and> fst (loadAudioBuffer ''./assets/KMGY%20.mp3'' w) = 0
     \<and> promises w 0 = Some (Rejected (Error ''decode failed''))
     \<and> loads (snd (loadAudioBuffer ''./assets/KMGY%20.mp3'' w)) = [''./assets/KMGY%20.mp3''])"
  by (simp add: audio_eval)


section \<open>\<open>switchAudio\<close>\<close>

text \<open>
  The comparison after the decode works: a task whose token is no longer the current one
  is dropped there without any other change.
\<close>

lemma afterBuffer_stale:
  assumes "audioTasks w requestId = Some (AwaitBuffer index option p)"
    and "promises w p = Some (Fulfilled b)" and "requestId \<noteq> audioRequestId w"
  shows "afterBuffer requestId w = w \<lparr> audioTasks := (audioTasks w)(requestId := None) \<rparr>"
  using assms by (simp add: afterBuffer_def finishTask_def)

lemma resumeRejected_frame:
  assumes "audioTasks w requestId = Some (AwaitResume index option)"
  shows "resumeRejected requestId e w =
           w \<lparr> audioWarnings := audioWarnings w @ [(audioFile option, e)],
               audioTasks := (audioTasks w)(requestId := None) \<rparr>"
  using assms by (simp add: resumeRejected_def finishTask_def warnAudio_def)

text \<open>
  Claim C1, evaluated on the code. Track 1 is requested (token 1), decoded, passes the
  comparison after the decode and waits for \<open>resume()\<close>; track 0 is requested (token
  2); then the \<open>resume()\<close> of the first call resolves. With the current token 2, the
  call holding token 1 starts playback, creates the analyser and sets
  \<open>currentAudioIndex\<close> to 1. In the second run both calls reach \<open>resume()\<close> and the
  newer one resolves first: the session ends with \<open>currentAudioIndex = 1\<close> while the
  last request was for track 0 and the buffer playing is that of track 0.
\<close>

theorem switchAudio_stale_resume_commits:
  "(let w = audioRun [SwitchAudio 1, LoaderLoaded 0 (AudioBuffer 11), BufferSettled 1,
                      SwitchAudio 0] audioAtLoad;
        w' = audioStep (ResumeResolved 1) w
    in audioRequestId w = 2 \<and> currentAudioIndex w = 0 \<and> audioAnalyser w = None
     \<and> map_option isPlaying (audio w) = Some False
     \<and> audioRequestId w' = 2 \<and> currentAudioIndex w' = 1 \<and> audioAnalyser w' = Some 0
     \<and> map_option isPlaying (audio w') = Some True
     \<and> map_option playingSource (audio w') = Some (Some (AudioBuffer 11)))
   \<and> (let v = audioRun [SwitchAudio 1, LoaderLoaded 0 (AudioBuffer 11), BufferSettled 1,
                         SwitchAudio 0, LoaderLoaded 2 (AudioBuffer 10), BufferSettled 2,
                         ResumeResolved 2, ResumeResolved 1] audioAtLoad
       in audioRequestId v = 2 \<and> desiredAudioIndex v = 0 \<and> currentAudioIndex v = 1
        \<and> map_option playingSource (audio v) = Some (Some (AudioBuffer 10)))"
  by (simp add: audio_eval)

text \<open>
  The same with the \<open>switchAudio(0)\<close> of \<open>setupAudio\<close> in front, still waiting for its
  decode: the call for track 1 holds token 2, passes the comparison after its decode, and
  commits index 1 after the third call has raised the token to 3.
\<close>

lemma switchAudio_stale_resume_commits_after_setup:
  "(let w = audioRun [SwitchAudio 0, SwitchAudio 1, LoaderLoaded 1 (AudioBuffer 11),
                      BufferSettled 2, SwitchAudio 0] audioAtLoad;
        w' = audioStep (ResumeResolved 2) w
    in audioRequestId w = 3 \<and> currentAudioIndex w = 0 \<and> audioAnalyser w = None
     \<and> audioRequestId w' = 3 \<and> currentAudioIndex w' = 1 \<and> audioAnalyser w' = Some 0
     \<and> map_option isPlaying (audio w') = Some True)"
  by (simp add: audio_eval)

lemma afterBuffer_current:
  assumes task: "audioTasks w requestId = Some (AwaitBuffer index option p)"
    and buf: "promises w p = Some (Fulfilled b)"
    and tok: "requestId = audioRequestId w"
    and aud: "audio w = Some a"
  shows "afterBuffer requestId w =
           w \<lparr> audio := Some (a \<lparr> isPlaying := False, buffer := Some b, loop := True,
                                   volume := coalesce (audioVolume option) 0.6 \<rparr>),
               resumeCalls := Suc (resumeCalls w),
               audioTasks := (audioTasks w)(requestId \<mapsto> AwaitResume index option) \<rparr>"
  using task buf tok aud
  by (cases "isPlaying a")
     (simp_all add: afterBuffer_def Let_def stop_def setBuffer_def setLoop_def setVolume_def)

lemma secondTrackDecoded_facts:
  "audioTasks secondTrackDecoded 2 = Some (AwaitBuffer 1 (audioOptions ! 1) 2)"
  "promises secondTrackDecoded 2 = Some (Fulfilled (AudioBuffer 11))"
  "2 = audioRequestId secondTrackDecoded"
  "audio secondTrackDecoded =
      Some \<lparr> buffer = Some (AudioBuffer 10), isPlaying = True, loop = True,
             volume = 0.6, playingSource = Some (AudioBuffer 10) \<rparr>"
  "currentAudioIndex secondTrackDecoded = 0"
  by (simp_all add: secondTrackDecoded_def audio_eval)

text \<open>
  Claim C2, as the code has it. A call whose token is current when its decode arrives
  stops the audio object, binds the new buffer, loop flag and volume, and only then waits
  for \<open>resume()\<close>. When \<open>resume()\<close> rejects, that step appends one warning and ends
  the task and changes nothing else: \<open>currentAudioIndex\<close>, the analyser, the token and the
  audio object stay as they were when \<open>resume()\<close> was called. So the index is never
  committed, but the previous audio has been stopped and rebound.
\<close>

theorem switchAudio_resume_rejected:
  assumes task: "audioTasks w requestId = Some (AwaitBuffer index option p)"
    and buf: "promises w p = Some (Fulfilled b)"
    and tok: "requestId = audioRequestId w"
    and aud: "audio w = Some a"
  shows "(let w1 = audioStep (BufferSettled requestId) w;
              w2 = audioStep (ResumeRejected requestId e) w1
          in audio w1 = Some (a \<lparr> isPlaying := False, buffer := Some b, loop := True,
                                 volume := coalesce (audioVolume option) 0.6 \<rparr>)
           \<and> audioTasks w1 requestId = Some (AwaitResume index option)
           \<and> currentAudioIndex w1 = currentAudioIndex w
           \<and> w2 = w1 \<lparr> audioWarnings := audioWarnings w @ [(audioFile option, e)],
                       audioTasks := (audioTasks w1)(requestId := None) \<rparr>
           \<and> currentAudioIndex w2 = currentAudioIndex w
           \<and> audioAnalyser w2 = audioAnalyser w
           \<and> audioRequestId w2 = audioRequestId w
           \<and> audio w2 = audio w1)"
proof -
  define w1 where "w1 = afterBuffer requestId w"
  note w1 = afterBuffer_current [OF task buf tok aud, folded w1_def]
  have t1: "audioTasks w1 requestId = Some (AwaitResume index option)"
    by (simp add: w1)
  note w2 = resumeRejected_frame [OF t1, of e]
  show ?thesis
    unfolding Let_def audioStep.simps w1_def [symmetric] w2
    by (simp add: w1)
qed

theorem switchAudio_resume_rejected_witness:
  "(let w1 = audioStep (BufferSettled 2) secondTrackDecoded;
        w2 = audioStep (ResumeRejected 2 (Error ''NotAllowedError'')) w1
    in audio w1 = Some (\<lparr> buffer = Some (AudioBuffer 10), isPlaying = True, loop = True,
                           volume = 0.6, playingSource = Some (AudioBuffer 10) \<rparr>
                         \<lparr> isPlaying := False, buffer := Some (AudioBuffer 11), loop := True,
                           volume := coalesce (audioVolume (audioOptions ! 1)) 0.6 \<rparr>)
     \<and> audioTasks w1 2 = Some (AwaitResume 1 (audioOptions ! 1))
     \<and> currentAudioIndex w1 = currentAudioIndex secondTrackDecoded
     \<and> w2 = w1 \<lparr> audioWarnings := audioWarnings secondTrackDecoded
                        @ [(audioFile (audioOptions ! 1), Error ''NotAllowedError'')],
                 audioTasks := (audioTasks w1)(2 := None) \<rparr>
     \<and> currentAudioIndex w2 = currentAudioIndex secondTrackDecoded
     \<and> audioAnalyser w2 = audioAnalyser secondTrackDecoded
     \<and> audioRequestId w2 = audioRequestId secondTrackDecoded
     \<and> audio w2 = audio w1)"
  by (rule switchAudio_resume_rejected [OF secondTrackDecoded_facts(1-4)])

text \<open>
  The claim as stated fails: the first track is playing, the second call's
  \<open>resume()\<close> rejects, and afterwards the audio object is stopped and holds the second
  track's buffer.
\<close>

theorem switchAudio_resume_rejected_counterexample:
  "(let w2 = audioRun [BufferSettled 2, ResumeRejected 2 (Error ''NotAllowedError'')]
               secondTrackDecoded
    in map_option isPlaying (audio secondTrackDecoded) = Some True
     \<and> map_option buffer (audio secondTrackDecoded) = Some (Some (AudioBuffer 10))
     \<and> map_option isPlaying (audio w2) = Some False
     \<and> map_option buffer (audio w2) = Some (Some (AudioBuffer 11))
     \<and> currentAudioIndex w2 = 0)"
proof -
  note w1 = afterBuffer_current [OF secondTrackDecoded_facts(1-4)]
  have t1: "audioTasks (afterBuffer 2 secondTrackDecoded) 2
              = Some (AwaitResume 1 (audioOptions ! 1))"
    unfolding w1 by simp
  note w2 = resumeRejected_frame [OF t1, of "Error ''NotAllowedError''"]
  show ?thesis
    unfolding Let_def audioRun.simps audioStep.simps w2
    by (simp add: w1 secondTrackDecoded_facts(4,5))
qed


section \<open>\<open>switchAnimation\<close>\<close>

text \<open>The equations that evaluate an avatar session on concrete collaborators.\<close>

lemmas avatar_eval =
  envNothingLoads_def envImportFails_def envSecondArchive_def envGvrmReady_def
  avatarAtLoad_def ensureGvrmModule_def loadSimpleVRMFromGvrm_def loadWrapper_def
  loadGvrmAvatarFrom_def initFrom_def initFailed_def setCapabilities_def logAvatar_def
  switchAnimation_def js_index_def animationOptions_def coalesce_def Let_def
  fallbackResult_def fallbackFails_def extendedFails_def
  gvrmHandle_def SimpleVRMWrapper_def candidates_def init_def

lemma switchAnimation_armed:
  assumes "armed w" "validAnimation index"
  shows "armed (animationStep (SwitchAnimation index) w)"
    and "currentAnimationIndex (animationStep (SwitchAnimation index) w) = currentAnimationIndex w"
    and "animationRequestId (animationStep (SwitchAnimation index) w) = Suc (animationRequestId w)"
    and "animationTasks (animationStep (SwitchAnimation index) w) (Suc (animationRequestId w))
           = Some (index, animationOptions ! nat index)"
    and "avatarUncaught (animationStep (SwitchAnimation index) w) = avatarUncaught w"
  using assms
  by (auto simp: armed_def validAnimation_def switchAnimation_def js_index_def Let_def logAvatar_def
      split: option.splits)

lemma requests_run:
  assumes "armed w" "\<forall>i\<in>set is. validAnimation i"
  shows "armed (animationRun (map SwitchAnimation is) w)
       \<and> currentAnimationIndex (animationRun (map SwitchAnimation is) w) = currentAnimationIndex w
       \<and> animationRequestId (animationRun (map SwitchAnimation is) w) = animationRequestId w + length is
       \<and> (is \<noteq> [] \<longrightarrow>
            animationTasks (animationRun (map SwitchAnimation is) w)
              (animationRequestId w + length is) = Some (last is, animationOptions ! nat (last is)))"
  using assms
proof (induction "is" arbitrary: w)
  case Nil
  then show ?case by simp
next
  case (Cons i "is")
  from Cons.prems have v: "validAnimation i" and vs: "\<forall>i\<in>set is. validAnimation i" by simp_all
  note st = switchAnimation_armed [OF Cons.prems(1) v]
  note ih = Cons.IH [OF st(1) vs]
  show ?case
  proof (cases "is = []")
    case True
    then show ?thesis using st by simp
  next
    case False
    then show ?thesis using ih st by simp
  qed
qed

lemma changeResolved_stale:
  "requestId \<noteq> animationRequestId w \<Longrightarrow>
   changeResolved requestId w = w \<lparr> animationTasks := (animationTasks w)(requestId := None) \<rparr>"
  by (cases "animationTasks w requestId") (auto simp: changeResolved_def fun_upd_idem)

lemma changeResolved_fields:
  "animationRequestId (changeResolved r w) = animationRequestId w"
  "avatarLog (changeResolved r w) = avatarLog w"
  "animationTasks (changeResolved r w) = (animationTasks w)(r := None)"
  "currentAnimationIndex (changeResolved r w) =
     (case animationTasks w r of
        Some (index, option) \<Rightarrow> if r = animationRequestId w then index else currentAnimationIndex w
      | None \<Rightarrow> currentAnimationIndex w)"
  by (auto simp: changeResolved_def split: option.splits)

lemma changeRejected_fields:
  "animationRequestId (changeRejected r e w) = animationRequestId w"
  "animationTasks (changeRejected r e w) = (animationTasks w)(r := None)"
  "currentAnimationIndex (changeRejected r e w) = currentAnimationIndex w"
  by (auto simp: changeRejected_def logAvatar_def split: option.splits)

lemma latestOnly_step:
  "latestOnly c0 i w \<Longrightarrow> isCompletion e \<Longrightarrow>
   latestOnly c0 i (animationStep e w)
   \<and> animationRequestId (animationStep e w) = animationRequestId w"
  by (cases e)
     (auto simp: latestOnly_def changeResolved_fields changeRejected_fields split: option.splits)

lemma latestOnly_run:
  "latestOnly c0 i w \<Longrightarrow> \<forall>e\<in>set cs. isCompletion e \<Longrightarrow>
   latestOnly c0 i (animationRun cs w)
   \<and> animationRequestId (animationRun cs w) = animationRequestId w"
proof (induction cs arbitrary: w)
  case Nil
  then show ?case by simp
next
  case (Cons e cs)
  from Cons.prems have e: "isCompletion e" and cs: "\<forall>e\<in>set cs. isCompletion e" by simp_all
  note st = latestOnly_step [OF Cons.prems(1) e]
  from Cons.IH [OF conjunct1 [OF st] cs] st show ?case by simp
qed

lemma eventually_committed:
  assumes "animationTasks w (animationRequestId w) = Some (i, option)"
    and "ChangeResolved (animationRequestId w) \<in> set cs"
    and "\<forall>e\<in>set cs. isCompletion e"
    and "\<forall>x. ChangeRejected (animationRequestId w) x \<notin> set cs"
  shows "currentAnimationIndex (animationRun cs w) = i"
  using assms
proof (induction cs arbitrary: w)
  case Nil
  then show ?case by simp
next
  case (Cons e cs)
  from Cons.prems(3) have e: "isCompletion e" and cs: "\<forall>e\<in>set cs. isCompletion e" by simp_all
  show ?case
  proof (cases "e = ChangeResolved (animationRequestId w)")
    case True
    have "latestOnly i i (animationStep e w)"
      using Cons.prems(1) True by (simp add: latestOnly_def changeResolved_fields)
    from latestOnly_run [OF this cs] show ?thesis by (simp add: latestOnly_def)
  next
    case False
    with Cons.prems(2) have mem: "ChangeResolved (animationRequestId w) \<in> set cs" by simp
    from Cons.prems(4) have nr: "\<forall>x. ChangeRejected (animationRequestId w) x \<notin> set cs"
      and ne: "\<forall>x. e \<noteq> ChangeRejected (animationRequestId w) x" by auto
    have tok: "animationRequestId (animationStep e w) = animationRequestId w"
      using e by (cases e) (simp_all add: changeResolved_fields changeRejected_fields)
    have task: "animationTasks (animationStep e w) (animationRequestId w) = Some (i, option)"
      using e False ne Cons.prems(1)
      by (cases e) (auto simp: changeResolved_fields changeRejected_fields)
    from Cons.IH [of "animationStep e w"] tok task mem cs nr show ?thesis by simp
  qed
qed

text \<open>
  Claim C4. The avatar supports animation switching and is ready; \<open>N \<ge> 1\<close> requests
  with valid indices are issued before any of their clip changes completes; then the
  completions (resolutions and rejections) arrive in any order. The token after the
  requests is the old token plus \<open>N\<close> and no completion changes it. After any number of
  completions the committed index is the one from before the requests or the last
  requested one: no other index is ever committed. If the last request's clip change
  resolves (and is not rejected), the committed index is the last requested one however
  the completions are ordered. In every state a resolution whose token is not the current
  one only ends its task: no index is committed and nothing is logged; and a rejection
  never commits an index.
\<close>

theorem switchAnimation_latest_wins:
  assumes arm: "armed w"
    and valid: "\<forall>i\<in>set is. validAnimation i"
    and nonempty: "is \<noteq> []"
    and compl: "\<forall>e\<in>set cs. isCompletion e"
  shows "(let w1 = animationRun (map SwitchAnimation is) w;
              w2 = animationRun cs w1
          in animationRequestId w1 = animationRequestId w + length is
           \<and> animationRequestId w2 = animationRequestId w1
           \<and> (currentAnimationIndex w2 = currentAnimationIndex w
                \<or> currentAnimationIndex w2 = last is)
           \<and> (ChangeResolved (animationRequestId w1) \<in> set cs
                \<and> (\<forall>x. ChangeRejected (animationRequestId w1) x \<notin> set cs)
                \<longrightarrow> currentAnimationIndex w2 = last is)
           \<and> (\<forall>v r. r \<noteq> animationRequestId v \<longrightarrow>
                  animationStep (ChangeResolved r) v
                    = v \<lparr> animationTasks := (animationTasks v)(r := None) \<rparr>)
           \<and> (\<forall>v r x. currentAnimationIndex (animationStep (ChangeRejected r x) v)
                    = currentAnimationIndex v))"
proof -
  define w1 where "w1 = animationRun (map SwitchAnimation is) w"
  define w2 where "w2 = animationRun cs w1"
  from requests_run [OF arm valid] nonempty
  have cur1: "currentAnimationIndex w1 = currentAnimationIndex w"
    and tok1: "animationRequestId w1 = animationRequestId w + length is"
    and task1: "animationTasks w1 (animationRequestId w1)
                  = Some (last is, animationOptions ! nat (last is))"
    by (simp_all add: w1_def)
  have "latestOnly (currentAnimationIndex w) (last is) w1"
    by (simp add: latestOnly_def cur1 task1)
  from latestOnly_run [OF this compl]
  have lo2: "latestOnly (currentAnimationIndex w) (last is) w2"
    and tok2: "animationRequestId w2 = animationRequestId w1"
    by (simp_all add: w2_def)
  have ev: "currentAnimationIndex w2 = last is"
    if "ChangeResolved (animationRequestId w1) \<in> set cs"
      and "\<forall>x. ChangeRejected (animationRequestId w1) x \<notin> set cs"
    unfolding w2_def by (rule eventually_committed [OF task1 that(1) compl that(2)])
  have stale: "animationStep (ChangeResolved r) v
                 = v \<lparr> animationTasks := (animationTasks v)(r := None) \<rparr>"
    if "r \<noteq> animationRequestId v" for r v
    using that by (simp add: changeResolved_stale)
  show ?thesis
    unfolding Let_def w1_def [symmetric] w2_def [symmetric]
    using tok1 tok2 lo2 ev stale by (simp add: latestOnly_def changeRejected_fields)
qed


theorem switchAnimation_latest_wins_witness:
  "(let w1 = animationRun (map SwitchAnimation [1, 2, 3]) gvrmSession;
        w2 = animationRun [ChangeResolved 3, ChangeResolved 1, ChangeRejected 2 (Error ''timeout''),
                           ChangeResolved 4] w1
    in animationRequestId w1 = 4 \<and> currentAnimationIndex w2 = 3)"
proof -
  have arm: "armed gvrmSession"
    by (simp add: gvrmSession_def armed_def avatar_eval)
  have tok: "animationRequestId gvrmSession = 1"
    by (simp add: gvrmSession_def avatar_eval)
  have valid: "\<forall>i\<in>set [1, 2, 3]. validAnimation i"
    by (simp add: validAnimation_def animationOptions_def)
  have ne: "[1, 2, 3] \<noteq> ([] :: int list)" by simp
  have compl: "\<forall>e\<in>set [ChangeResolved 3, ChangeResolved 1, ChangeRejected 2 (Error ''timeout''),
                           ChangeResolved 4]. isCompletion e"
    by simp
  note t = switchAnimation_latest_wins [OF arm valid ne compl]
  define w1 where "w1 = animationRun (map SwitchAnimation [1, 2, 3]) gvrmSession"
  define w2 where "w2 = animationRun [ChangeResolved 3, ChangeResolved 1,
                           ChangeRejected 2 (Error ''timeout''), ChangeResolved 4] w1"
  from t have t1: "animationRequestId w1 = animationRequestId gvrmSession + length [1, 2, 3 :: int]"
    and t2: "ChangeResolved (animationRequestId w1)
               \<in> set [ChangeResolved 3, ChangeResolved 1, ChangeRejected 2 (Error ''timeout''),
                           ChangeResolved 4]
             \<and> (\<forall>x. ChangeRejected (animationRequestId w1) x
                   \<notin> set [ChangeResolved 3, ChangeResolved 1, ChangeRejected 2 (Error ''timeout''),
                           ChangeResolved 4])
             \<longrightarrow> currentAnimationIndex w2 = last [1, 2, 3]"
    unfolding Let_def w1_def [symmetric] w2_def [symmetric] by blast+
  from t1 tok have t3: "animationRequestId w1 = 4" by simp
  from t2 have "currentAnimationIndex w2 = 3" unfolding t3 by simp
  with t3 show ?thesis
    unfolding Let_def w1_def [symmetric] w2_def [symmetric] by simp
qed


section \<open>Avatar acquisition\<close>

lemma loadWrapper_fst: "fst (loadWrapper env u b w) = fst (loadWrapper env u b w')"
  by (simp add: loadWrapper_def split: sum.splits option.splits)

lemma loadSimpleVRMFromGvrm_fst:
  "fst (loadSimpleVRMFromGvrm env u w) = fallbackResult env u"
  unfolding fallbackResult_def loadSimpleVRMFromGvrm_def
  by (auto simp: Let_def loadWrapper_def split: sum.splits option.splits prod.splits)

lemma loadSimpleVRMFromGvrm_frame:
  "avatarCapabilities (snd (loadSimpleVRMFromGvrm env u w)) = avatarCapabilities w"
  "capabilityWrites (snd (loadSimpleVRMFromGvrm env u w)) = capabilityWrites w"
  "gvrmModuleLoadError (snd (loadSimpleVRMFromGvrm env u w)) = gvrmModuleLoadError w"
  "gvrmInstance (snd (loadSimpleVRMFromGvrm env u w)) = gvrmInstance w"
  "desiredAnimationIndex (snd (loadSimpleVRMFromGvrm env u w)) = desiredAnimationIndex w"
  "liveObjectUrls (snd (loadSimpleVRMFromGvrm env u w)) = removeAll (nextObjectUrl w) (liveObjectUrls w)
   \<or> liveObjectUrls (snd (loadSimpleVRMFromGvrm env u w)) = liveObjectUrls w"
  unfolding loadSimpleVRMFromGvrm_def
  by (auto simp: Let_def loadWrapper_def split: sum.splits option.splits prod.splits)

lemma sameCapabilities_refl: "sameCapabilities w w"
  by (simp add: sameCapabilities_def)

lemma sameCapabilities_trans:
  "sameCapabilities w2 w1 \<Longrightarrow> sameCapabilities w1 w \<Longrightarrow> sameCapabilities w2 w"
  by (simp add: sameCapabilities_def)

lemma sameCapabilities_log: "sameCapabilities (logAvatar entry w) w"
  by (simp add: sameCapabilities_def logAvatar_def)

lemma sameCapabilities_fallback: "sameCapabilities (snd (loadSimpleVRMFromGvrm env u w)) w"
  by (simp add: sameCapabilities_def loadSimpleVRMFromGvrm_frame)

lemma tryCandidates_Cons_fail:
  assumes ext: "\<not> GVRMClass \<or> isl (gvrmLoad env c)" and fb: "fallbackResult env c = Inl fe"
  shows "\<exists>w'. tryCandidates env GVRMClass (c # rest) lastError w
               = tryCandidates env GVRMClass rest (Some fe) w'
             \<and> sameCapabilities w' w
             \<and> last (avatarLog w')
                 = Warn (''Fallback VRM load failed for candidate '' @ c) (Some fe)"
proof -
  define w1 where "w1 =
    (case (if GVRMClass then Some (gvrmLoad env c) else None) of
       Some (Inl e) \<Rightarrow> logAvatar (Warn (''Failed to load GVRM candidate '' @ c) (Some e)) w
     | _ \<Rightarrow> w)"
  have s1: "sameCapabilities w1 w"
    by (simp add: w1_def sameCapabilities_refl sameCapabilities_log split: option.splits sum.splits)
  obtain r w2 where l: "loadSimpleVRMFromGvrm env c w1 = (r, w2)" by (cases "loadSimpleVRMFromGvrm env c w1")
  from loadSimpleVRMFromGvrm_fst [of env c w1] l fb have r: "r = Inl fe" by simp
  from sameCapabilities_fallback [of env c w1] l have s2: "sameCapabilities w2 w1" by simp
  define w3 where "w3 = logAvatar (Warn (''Fallback VRM load failed for candidate '' @ c) (Some fe)) w2"
  have s3: "sameCapabilities w3 w"
    unfolding w3_def
    by (rule sameCapabilities_trans [OF sameCapabilities_log sameCapabilities_trans [OF s2 s1]])
  have "tryCandidates env GVRMClass (c # rest) lastError w
          = tryCandidates env GVRMClass rest (Some fe) w3"
    using ext l r
    by (cases "gvrmLoad env c") (auto simp: Let_def w1_def w3_def)
  moreover have "last (avatarLog w3)
                   = Warn (''Fallback VRM load failed for candidate '' @ c) (Some fe)"
    by (simp add: w3_def logAvatar_def)
  ultimately show ?thesis using s3 by blast
qed

lemma tryCandidates_Cons_fallback:
  assumes ext: "\<not> GVRMClass \<or> isl (gvrmLoad env c)" and fb: "fallbackResult env c = Inr h"
  shows "\<exists>w'. tryCandidates env GVRMClass (c # rest) lastError w = (Inr h, w')
             \<and> avatarCapabilities w' = \<lparr> supportsFBX = False, mode = ModeSimpleVrm \<rparr>
             \<and> capabilityWrites w' = capabilityWrites w @ [\<lparr> supportsFBX = False, mode = ModeSimpleVrm \<rparr>]
             \<and> gvrmInstance w' = gvrmInstance w
             \<and> desiredAnimationIndex w' = desiredAnimationIndex w"
proof -
  define w1 where "w1 =
    (case (if GVRMClass then Some (gvrmLoad env c) else None) of
       Some (Inl e) \<Rightarrow> logAvatar (Warn (''Failed to load GVRM candidate '' @ c) (Some e)) w
     | _ \<Rightarrow> w)"
  have s1: "sameCapabilities w1 w"
    by (simp add: w1_def sameCapabilities_refl sameCapabilities_log split: option.splits sum.splits)
  obtain r w2 where l: "loadSimpleVRMFromGvrm env c w1 = (r, w2)" by (cases "loadSimpleVRMFromGvrm env c w1")
  from loadSimpleVRMFromGvrm_fst [of env c w1] l fb have r: "r = Inr h" by simp
  from sameCapabilities_fallback [of env c w1] l have s2: "sameCapabilities w2 w1" by simp
  define w3 where "w3 =
     logAvatar (Info (''Loaded fallback VRM avatar without Gaussian splatting: '' @ c))
       (setCapabilities \<lparr> supportsFBX = False, mode = ModeSimpleVrm \<rparr> MetaStandard w2)"
  have eq: "tryCandidates env GVRMClass (c # rest) lastError w = (Inr h, w3)"
    using ext l r
    by (cases "gvrmLoad env c") (auto simp: Let_def w1_def w3_def)
  from sameCapabilities_trans [OF s2 s1]
  have "avatarCapabilities w3 = \<lparr> supportsFBX = False, mode = ModeSimpleVrm \<rparr>"
    "capabilityWrites w3 = capabilityWrites w @ [\<lparr> supportsFBX = False, mode = ModeSimpleVrm \<rparr>]"
    "gvrmInstance w3 = gvrmInstance w" "desiredAnimationIndex w3 = desiredAnimationIndex w"
    by (simp_all add: w3_def logAvatar_def setCapabilities_def sameCapabilities_def)
  with eq show ?thesis by blast
qed

lemma tryCandidates_Cons_extended:
  assumes "GVRMClass" "gvrmLoad env c = Inr ready"
  shows "tryCandidates env GVRMClass (c # rest) lastError w =
           (Inr (gvrmHandle c ready),
            setCapabilities \<lparr> supportsFBX = True, mode = ModeGvrm \<rparr> MetaGaussian w)"
  using assms by simp

lemma tryCandidates_exhausted:
  assumes "\<forall>c\<in>set cs. (\<not> GVRMClass \<or> isl (gvrmLoad env c)) \<and> fallbackFails env c"
  shows "\<exists>lastError' w'. tryCandidates env GVRMClass cs lastError w = (Inl lastError', w')
           \<and> sameCapabilities w' w
           \<and> (cs = [] \<longrightarrow> lastError' = lastError \<and> avatarLog w' = avatarLog w)
           \<and> (cs \<noteq> [] \<longrightarrow>
                (\<exists>e. lastError' = Some e \<and> fallbackResult env (last cs) = Inl e
                   \<and> last (avatarLog w')
                       = Warn (''Fallback VRM load failed for candidate '' @ last cs) (Some e)))"
  using assms
proof (induction cs arbitrary: lastError w)
  case Nil
  then show ?case by (simp add: sameCapabilities_refl)
next
  case (Cons c cs)
  from Cons.prems have ext: "\<not> GVRMClass \<or> isl (gvrmLoad env c)"
    and ff: "fallbackFails env c"
    and rest: "\<forall>c\<in>set cs. (\<not> GVRMClass \<or> isl (gvrmLoad env c)) \<and> fallbackFails env c"
    by simp_all
  from ff obtain fe where fb: "fallbackResult env c = Inl fe"
    by (auto simp: fallbackFails_def isl_def)
  from tryCandidates_Cons_fail [OF ext fb, of cs lastError w]
  obtain w1 where st: "tryCandidates env GVRMClass (c # cs) lastError w
                         = tryCandidates env GVRMClass cs (Some fe) w1"
    and s1: "sameCapabilities w1 w"
    and l1: "last (avatarLog w1) = Warn (''Fallback VRM load failed for candidate '' @ c) (Some fe)"
    by blast
  from Cons.IH [OF rest, of "Some fe" w1]
  obtain le w2 where r: "tryCandidates env GVRMClass cs (Some fe) w1 = (Inl le, w2)"
    and s2: "sameCapabilities w2 w1"
    and e1: "cs = [] \<longrightarrow> le = Some fe \<and> avatarLog w2 = avatarLog w1"
    and e2: "cs \<noteq> [] \<longrightarrow>
               (\<exists>e. le = Some e \<and> fallbackResult env (last cs) = Inl e
                  \<and> last (avatarLog w2)
                      = Warn (''Fallback VRM load failed for candidate '' @ last cs) (Some e))"
    by blast
  have "\<exists>e. le = Some e \<and> fallbackResult env (last (c # cs)) = Inl e
          \<and> last (avatarLog w2)
              = Warn (''Fallback VRM load failed for candidate '' @ last (c # cs)) (Some e)"
    using e1 e2 fb l1 by (cases "cs = []") simp_all
  with st r sameCapabilities_trans [OF s2 s1] show ?case by (simp del: tryCandidates.simps)
qed

lemma tryCandidates_fails_iff:
  "isl (fst (tryCandidates env GVRMClass cs lastError w))
     \<longleftrightarrow> (\<forall>c\<in>set cs. (\<not> GVRMClass \<or> isl (gvrmLoad env c)) \<and> fallbackFails env c)"
proof (induction cs arbitrary: lastError w)
  case Nil
  show ?case by simp
next
  case (Cons c cs)
  show ?case
  proof (cases "\<not> GVRMClass \<or> isl (gvrmLoad env c)")
    case False
    then obtain ready where "GVRMClass" "gvrmLoad env c = Inr ready"
      by (cases "gvrmLoad env c") auto
    from tryCandidates_Cons_extended [OF this, of cs lastError w] False show ?thesis
      by (simp del: tryCandidates.simps)
  next
    case ext: True
    show ?thesis
    proof (cases "fallbackResult env c")
      case (Inl fe)
      from tryCandidates_Cons_fail [OF ext Inl, of cs lastError w]
      obtain w1 where "tryCandidates env GVRMClass (c # cs) lastError w
                         = tryCandidates env GVRMClass cs (Some fe) w1" by blast
      with Cons.IH [of "Some fe" w1] ext Inl show ?thesis
        by (simp add: fallbackFails_def del: tryCandidates.simps)
    next
      case (Inr h)
      from tryCandidates_Cons_fallback [OF ext Inr, of cs lastError w]
      obtain w1 where "tryCandidates env GVRMClass (c # cs) lastError w = (Inr h, w1)" by blast
      with Inr show ?thesis by (simp add: fallbackFails_def del: tryCandidates.simps)
    qed
  qed
qed

lemma ensureGvrmModule_frame:
  "avatarCapabilities (snd (ensureGvrmModule env w)) = avatarCapabilities w"
  "capabilityWrites (snd (ensureGvrmModule env w)) = capabilityWrites w"
  "gvrmInstance (snd (ensureGvrmModule env w)) = gvrmInstance w"
  "desiredAnimationIndex (snd (ensureGvrmModule env w)) = desiredAnimationIndex w"
  by (simp_all add: ensureGvrmModule_def logAvatar_def split: option.splits sum.splits)

lemma initFailed_fields:
  "avatarCapabilities (initFailed e w) = \<lparr> supportsFBX = False, mode = ModeError \<rparr>"
  "capabilityWrites (initFailed e w) = capabilityWrites w @ [\<lparr> supportsFBX = False, mode = ModeError \<rparr>]"
  "avatarLog (initFailed e w) = avatarLog w @ [LogError e]"
  by (simp_all add: initFailed_def setCapabilities_def logAvatar_def)

text \<open>
  Claim C6. \<open>loadGvrmAvatar\<close> on a list with at least one candidate (the list in the
  source has one) fails exactly when every candidate fails on the extended backend (or the
  backend is not available) and on the fallback backend. In that case the error thrown is
  the last error the loop recorded, the fallback error of the last candidate, which is
  also the error of the last warning logged; with a candidate in the list an error is
  always recorded, so neither the cached import error nor the generic error is thrown.
  \<open>loadGvrmAvatar\<close> writes no capability, and \<open>init\<close> writes the capabilities once, with
  the error mode, and logs the error.
\<close>

theorem loadGvrmAvatar_exhausted:
  assumes ne: "cs \<noteq> []"
  shows "(isl (fst (loadGvrmAvatarFrom env cs w))
            \<longleftrightarrow> (\<forall>c\<in>set cs. extendedFails env w c \<and> fallbackFails env c))
       \<and> ((\<forall>c\<in>set cs. extendedFails env w c \<and> fallbackFails env c) \<longrightarrow>
            (\<exists>e. fst (loadGvrmAvatarFrom env cs w) = Inl e
               \<and> fallbackResult env (last cs) = Inl e
               \<and> last (avatarLog (snd (loadGvrmAvatarFrom env cs w)))
                   = Warn (''Fallback VRM load failed for candidate '' @ last cs) (Some e)
               \<and> avatarCapabilities (snd (loadGvrmAvatarFrom env cs w)) = avatarCapabilities w
               \<and> capabilityWrites (snd (loadGvrmAvatarFrom env cs w)) = capabilityWrites w
               \<and> avatarCapabilities (initFrom env cs w)
                   = \<lparr> supportsFBX = False, mode = ModeError \<rparr>
               \<and> capabilityWrites (initFrom env cs w)
                   = capabilityWrites w @ [\<lparr> supportsFBX = False, mode = ModeError \<rparr>]
               \<and> last (avatarLog (initFrom env cs w)) = LogError e))"
proof -
  obtain GVRMClass w1 where en: "ensureGvrmModule env w = (GVRMClass, w1)"
    by (cases "ensureGvrmModule env w")
  have ext: "extendedFails env w c \<longleftrightarrow> \<not> GVRMClass \<or> isl (gvrmLoad env c)" for c
    by (simp add: extendedFails_def en)
  have iff: "isl (fst (loadGvrmAvatarFrom env cs w))
      \<longleftrightarrow> (\<forall>c\<in>set cs. extendedFails env w c \<and> fallbackFails env c)"
  proof -
    obtain r w2 where tc: "tryCandidates env GVRMClass cs None w1 = (r, w2)"
      by (cases "tryCandidates env GVRMClass cs None w1")
    have "isl (fst (loadGvrmAvatarFrom env cs w)) = isl r"
      by (cases r) (simp_all add: loadGvrmAvatarFrom_def en tc Let_def)
    with tryCandidates_fails_iff [of env GVRMClass cs None w1] tc show ?thesis
      by (simp add: ext)
  qed
  have ex: "\<exists>e. fst (loadGvrmAvatarFrom env cs w) = Inl e
               \<and> fallbackResult env (last cs) = Inl e
               \<and> last (avatarLog (snd (loadGvrmAvatarFrom env cs w)))
                   = Warn (''Fallback VRM load failed for candidate '' @ last cs) (Some e)
               \<and> avatarCapabilities (snd (loadGvrmAvatarFrom env cs w)) = avatarCapabilities w
               \<and> capabilityWrites (snd (loadGvrmAvatarFrom env cs w)) = capabilityWrites w
               \<and> avatarCapabilities (initFrom env cs w)
                   = \<lparr> supportsFBX = False, mode = ModeError \<rparr>
               \<and> capabilityWrites (initFrom env cs w)
                   = capabilityWrites w @ [\<lparr> supportsFBX = False, mode = ModeError \<rparr>]
               \<and> last (avatarLog (initFrom env cs w)) = LogError e"
    if all: "\<forall>c\<in>set cs. extendedFails env w c \<and> fallbackFails env c"
  proof -
    from all have "\<forall>c\<in>set cs. (\<not> GVRMClass \<or> isl (gvrmLoad env c)) \<and> fallbackFails env c"
      by (simp add: ext)
    from tryCandidates_exhausted [OF this, of None w1] ne
    obtain e w2 where tc: "tryCandidates env GVRMClass cs None w1 = (Inl (Some e), w2)"
      and s2: "sameCapabilities w2 w1"
      and fb: "fallbackResult env (last cs) = Inl e"
      and lg: "last (avatarLog w2)
                 = Warn (''Fallback VRM load failed for candidate '' @ last cs) (Some e)"
      by blast
    have l: "loadGvrmAvatarFrom env cs w = (Inl e, w2)"
      by (simp add: loadGvrmAvatarFrom_def en tc Let_def coalesce_def)
    from ensureGvrmModule_frame [of env w] en
    have f1: "avatarCapabilities w1 = avatarCapabilities w" "capabilityWrites w1 = capabilityWrites w"
      by simp_all
    from s2 have f2: "avatarCapabilities w2 = avatarCapabilities w1"
      "capabilityWrites w2 = capabilityWrites w1"
      by (simp_all add: sameCapabilities_def)
    have i: "initFrom env cs w = initFailed e w2"
      by (simp add: initFrom_def l)
    show ?thesis
      using fb lg by (simp add: l i initFailed_fields f1 f2)
  qed
  from iff ex show ?thesis by blast
qed

theorem loadGvrmAvatar_exhausted_witness:
  "fst (loadGvrmAvatar envImportFails avatarAtLoad)
     = Inl (Error ''Failed to retrieve fallback VRM from ./assets/20251101-Masa.gvrm: 404 Not Found'')
   \<and> avatarCapabilities (init envImportFails avatarAtLoad)
       = \<lparr> supportsFBX = False, mode = ModeError \<rparr>
   \<and> capabilityWrites (init envImportFails avatarAtLoad)
       = [\<lparr> supportsFBX = False, mode = ModeError \<rparr>]
   \<and> last (avatarLog (init envImportFails avatarAtLoad))
       = LogError (Error ''Failed to retrieve fallback VRM from ./assets/20251101-Masa.gvrm: 404 Not Found'')"
proof -
  have ne: "candidates \<noteq> []" by (simp add: candidates_def)
  have all: "\<forall>c\<in>set candidates.
               extendedFails envImportFails avatarAtLoad c \<and> fallbackFails envImportFails c"
    by (simp add: avatar_eval)
  have lastfb: "fallbackResult envImportFails (last candidates)
      = Inl (Error ''Failed to retrieve fallback VRM from ./assets/20251101-Masa.gvrm: 404 Not Found'')"
    by (simp add: avatar_eval)
  have w0: "capabilityWrites avatarAtLoad = []" by (simp add: avatarAtLoad_def)
  from loadGvrmAvatar_exhausted [OF ne, of envImportFails avatarAtLoad] all
  obtain e where
    "fst (loadGvrmAvatarFrom envImportFails candidates avatarAtLoad) = Inl e"
    "fallbackResult envImportFails (last candidates) = Inl e"
    "avatarCapabilities (initFrom envImportFails candidates avatarAtLoad)
       = \<lparr> supportsFBX = False, mode = ModeError \<rparr>"
    "capabilityWrites (initFrom envImportFails candidates avatarAtLoad)
       = capabilityWrites avatarAtLoad @ [\<lparr> supportsFBX = False, mode = ModeError \<rparr>]"
    "last (avatarLog (initFrom envImportFails candidates avatarAtLoad)) = LogError e"
    by blast
  with lastfb w0 show ?thesis by (simp add: loadGvrmAvatar_def init_def)
qed

lemma fallbackResult_wrapper: "fallbackResult env u = Inr h \<Longrightarrow> h = SimpleVRMWrapper u"
  unfolding fallbackResult_def loadSimpleVRMFromGvrm_def
  by (auto simp: Let_def loadWrapper_def split: sum.splits option.splits prod.splits if_splits)

lemma switchAnimation_unsupported:
  "\<not> supportsFBX (avatarCapabilities w) \<Longrightarrow>
   switchAnimation index w = (None, w \<lparr> desiredAnimationIndex := index \<rparr>)"
  by (simp add: switchAnimation_def)

text \<open>
  Claim C7. Two candidates; the first fails on the extended backend (or the backend is
  not available) and on the fallback backend; for the second the extended backend fails
  or is not available and the fallback load succeeds. Then \<open>loadGvrmAvatar\<close> returns the
  \<open>SimpleVRMWrapper\<close> of the second candidate, and the capabilities are written exactly
  once, by \<open>loadGvrmAvatar\<close>, as \<open>supportsFBX = false\<close> and mode \<open>simple-vrm\<close>; \<open>init\<close>
  adds no further write and keeps the wrapper as \<open>gvrmInstance\<close>.
\<close>

theorem loadGvrmAvatar_second_fallback:
  assumes x1: "extendedFails env w c1" and f1: "fallbackFails env c1"
    and x2: "extendedFails env w c2" and f2: "\<not> fallbackFails env c2"
  shows "fst (loadGvrmAvatarFrom env [c1, c2] w) = Inr (SimpleVRMWrapper c2)
       \<and> kind (SimpleVRMWrapper c2) = SimpleVrmAvatar
       \<and> \<not> handleSupportsFBX (SimpleVRMWrapper c2)
       \<and> avatarCapabilities (snd (loadGvrmAvatarFrom env [c1, c2] w))
            = \<lparr> supportsFBX = False, mode = ModeSimpleVrm \<rparr>
       \<and> capabilityWrites (snd (loadGvrmAvatarFrom env [c1, c2] w))
            = capabilityWrites w @ [\<lparr> supportsFBX = False, mode = ModeSimpleVrm \<rparr>]
       \<and> avatarCapabilities (initFrom env [c1, c2] w)
            = \<lparr> supportsFBX = False, mode = ModeSimpleVrm \<rparr>
       \<and> capabilityWrites (initFrom env [c1, c2] w)
            = capabilityWrites w @ [\<lparr> supportsFBX = False, mode = ModeSimpleVrm \<rparr>]
       \<and> gvrmInstance (initFrom env [c1, c2] w) = Some (SimpleVRMWrapper c2)"
proof -
  obtain GVRMClass w1 where en: "ensureGvrmModule env w = (GVRMClass, w1)"
    by (cases "ensureGvrmModule env w")
  from x1 x2 have e1: "\<not> GVRMClass \<or> isl (gvrmLoad env c1)"
    and e2: "\<not> GVRMClass \<or> isl (gvrmLoad env c2)"
    by (simp_all add: extendedFails_def en)
  from f1 obtain fe where fb1: "fallbackResult env c1 = Inl fe"
    by (auto simp: fallbackFails_def isl_def)
  from f2 obtain h where fb2: "fallbackResult env c2 = Inr h"
    by (cases "fallbackResult env c2") (auto simp: fallbackFails_def)
  from fallbackResult_wrapper [OF fb2] have h: "h = SimpleVRMWrapper c2" .
  from tryCandidates_Cons_fail [OF e1 fb1, of "[c2]" None w1]
  obtain w2 where st1: "tryCandidates env GVRMClass [c1, c2] None w1
                          = tryCandidates env GVRMClass [c2] (Some fe) w2"
    and s2: "sameCapabilities w2 w1" by blast
  from tryCandidates_Cons_fallback [OF e2 fb2, of "[]" "Some fe" w2]
  obtain w3 where st2: "tryCandidates env GVRMClass [c2] (Some fe) w2 = (Inr h, w3)"
    and caps: "avatarCapabilities w3 = \<lparr> supportsFBX = False, mode = ModeSimpleVrm \<rparr>"
    and wr: "capabilityWrites w3 = capabilityWrites w2 @ [\<lparr> supportsFBX = False, mode = ModeSimpleVrm \<rparr>]"
    by blast
  have l: "loadGvrmAvatarFrom env [c1, c2] w = (Inr h, w3)"
    by (simp add: loadGvrmAvatarFrom_def en st1 st2 del: tryCandidates.simps)
  from ensureGvrmModule_frame [of env w] en s2
  have wr2: "capabilityWrites w2 = capabilityWrites w"
    by (simp add: sameCapabilities_def)
  have i: "initFrom env [c1, c2] w
             = w3 \<lparr> gvrmInstance := Some h, desiredAnimationIndex := desiredAnimationIndex w3 \<rparr>"
    by (simp add: initFrom_def l switchAnimation_unsupported caps)
  show ?thesis
    by (simp add: l i caps wr wr2 h SimpleVRMWrapper_def)
qed


theorem loadGvrmAvatar_second_fallback_witness:
  "fst (loadGvrmAvatarFrom envSecondArchive [''./assets/first.gvrm'', ''./assets/second.gvrm''] avatarAtLoad)
     = Inr (SimpleVRMWrapper ''./assets/second.gvrm'')
   \<and> avatarCapabilities (initFrom envSecondArchive [''./assets/first.gvrm'', ''./assets/second.gvrm''] avatarAtLoad)
       = \<lparr> supportsFBX = False, mode = ModeSimpleVrm \<rparr>
   \<and> capabilityWrites (initFrom envSecondArchive [''./assets/first.gvrm'', ''./assets/second.gvrm''] avatarAtLoad)
       = [\<lparr> supportsFBX = False, mode = ModeSimpleVrm \<rparr>]"
proof -
  have x1: "extendedFails envSecondArchive avatarAtLoad ''./assets/first.gvrm''"
    and f1: "fallbackFails envSecondArchive ''./assets/first.gvrm''"
    and x2: "extendedFails envSecondArchive avatarAtLoad ''./assets/second.gvrm''"
    and f2: "\<not> fallbackFails envSecondArchive ''./assets/second.gvrm''"
    by (simp_all add: avatar_eval)
  have w0: "capabilityWrites avatarAtLoad = []" by (simp add: avatarAtLoad_def)
  from loadGvrmAvatar_second_fallback [OF x1 f1 x2 f2] w0 show ?thesis by simp
qed



end
